theory Spec2Isabelle
  imports Complex_Main "HOL-Library.AList"
begin

section \<open>Python values\<close>

text \<open>
  The exceptions the modelled functions can raise. A function that may raise returns
  \<open>error + 'a\<close>, with \<open>Inl\<close> carrying the exception.
\<close>

datatype error =
    AssertionError | IndexError | KeyError | ZeroDivisionError
  | RuntimeError | ValueError | TypeError | AttributeError

text \<open>
  Floating-point numbers. Finite floats are idealised as reals (no rounding). The tag
  records which library owns the scalar, because the two divide by zero differently:
  a Python \<open>float\<close> raises \<open>ZeroDivisionError\<close>, a numpy scalar (under numpy's
  default error settings) warns and returns \<open>inf\<close>, \<open>-inf\<close> or \<open>nan\<close>.
\<close>

datatype number =
    PyFloat (py_value: real)
  | NpFloat (np_value: real)
  | NpInf
  | NpNegInf
  | NpNaN

section \<open>Distance to score (\<open>wbia_tbd/_plugin.py\<close>)\<close>

text \<open>
  \<^verbatim>\<open>
  # for cosine distance
  def distance_to_score(distance):
      score = (2 - distance) / 2
      score = np.float64(score)
      return score
  \<close>
\<close>

definition distance_to_score :: "real \<Rightarrow> number" where
  "distance_to_score distance = (let score = (2 - distance) / 2 in NpFloat score)"

text \<open>
  The function of the same name nested in \<open>wbia_plugin_tbd\<close>, which shadows the
  module-level one inside that function; it is applied to the entries of a numpy
  distance array when \<open>use_knn\<close> is false.
  \<^verbatim>\<open>
  def wbia_plugin_tbd(depc, qaid_list, daid_list, config):
      def distance_to_score(distance):
          score = 1 - distance
          return score
  \<close>
\<close>

definition wbia_plugin_tbd_distance_to_score :: "real \<Rightarrow> number" where
  "wbia_plugin_tbd_distance_to_score distance = (let score = 1 - distance in NpFloat score)"

section \<open>The host controller\<close>

text \<open>
  \<open>ibs\<close> is the controller object of the host system (WBIA); its code is not part of
  this repository. The model takes the host's read accessors as the fields of a
  record. The host answers a query for a list of annotation ids with one value per id,
  in order, so an accessor is modelled per annotation and mapped over the list.
  \<open>get_annot_semantic_uuids\<close> stands for the uuid already converted by \<open>str\<close>.
\<close>

type_synonym aid = int

type_synonym embedding = "real list"

text \<open>
  \<open>depc_annot_get\<close> stands for
  \<open>ibs.depc_annot.get('TbdEmbedding', aids, 'embedding', {'config_path': config})\<close>,
  the host's dependency cache asked for the embeddings of a list of annotations.
\<close>

record ibs =
  get_annot_name_texts :: "aid \<Rightarrow> string"
  get_annot_semantic_uuids :: "aid \<Rightarrow> string"
  get_annot_species_texts :: "aid \<Rightarrow> string"
  depc_annot_get :: "aid list \<Rightarrow> string option \<Rightarrow> error + embedding list"

text \<open>\<open>wbia.constants.UNKNOWN\<close>, the name text of an annotation without a name.\<close>

definition UNKNOWN :: string where
  "UNKNOWN = ''____''"

section \<open>Dictionaries\<close>

text \<open>
  A Python \<open>dict\<close> with string keys is an association list in insertion order;
  \<open>d[k]\<close> raises \<open>KeyError\<close> on a missing key, and \<open>d[k] = v\<close> is
  \<open>AList.update\<close>, which replaces the value in place or appends a new key.
\<close>

definition dict_keys :: "('k \<times> 'v) list \<Rightarrow> 'k list" where
  "dict_keys d = map fst d"

definition getitem :: "('k \<times> 'v) list \<Rightarrow> 'k \<Rightarrow> error + 'v" where
  "getitem d k = (case map_of d k of None \<Rightarrow> Inl KeyError | Some v \<Rightarrow> Inr v)"

text \<open>
  \<open>collections.defaultdict(float, d)[k]\<close>: the stored value, or the Python float
  \<open>0.0\<close> for a missing key.\<close>

definition defaultdict_float_getitem :: "('k \<times> number) list \<Rightarrow> 'k \<Rightarrow> number" where
  "defaultdict_float_getitem d k = (case map_of d k of None \<Rightarrow> PyFloat 0 | Some v \<Rightarrow> v)"

text \<open>
  A comprehension whose element expression may raise: the elements are evaluated in
  order and the first exception ends the evaluation.
\<close>

fun collect :: "(error + 'a) list \<Rightarrow> error + 'a list" where
  "collect [] = Inr []"
| "collect (r # rs) =
     (case r of
        Inl e \<Rightarrow> Inl e
      | Inr x \<Rightarrow> (case collect rs of Inl e \<Rightarrow> Inl e | Inr xs \<Rightarrow> Inr (x # xs)))"

text \<open>
  \<open>score / count\<close> with \<open>count\<close> a Python \<open>int\<close> (the result of \<open>list.count\<close>).
  A Python number divided by zero raises; a numpy scalar divided by zero becomes
  \<open>inf\<close>, \<open>-inf\<close> or \<open>nan\<close> (numpy only warns, by default).
\<close>

fun truediv :: "number \<Rightarrow> nat \<Rightarrow> error + number" where
  "truediv (PyFloat s) k = (if k = 0 then Inl ZeroDivisionError else Inr (PyFloat (s / real k)))"
| "truediv (NpFloat s) k =
     (if k = 0 then Inr (if 0 < s then NpInf else if s < 0 then NpNegInf else NpNaN)
      else Inr (NpFloat (s / real k)))"
| "truediv NpInf k = Inr NpInf"
| "truediv NpNegInf k = Inr NpNegInf"
| "truediv NpNaN k = Inr NpNaN"

section \<open>Name scores and annotation scores (\<open>wbia_tbd/_plugin.py\<close>)\<close>

text \<open>
  \<^verbatim>\<open>
  def _db_labels_for_tbd(ibs, daid_list):
      db_labels = ibs.get_annot_name_texts(daid_list)
      db_auuids = ibs.get_annot_semantic_uuids(daid_list)
      # later we must know which db_labels are for single auuids, hence prefix
      db_auuids = [UNKNOWN + str(auuid) for auuid in db_auuids]
      db_labels = [
          lab if lab is not UNKNOWN else auuid for lab, auuid in zip(db_labels, db_auuids)
      ]
      db_labels = np.array(db_labels)
      return db_labels
  \<close>
  The identity test \<open>lab is not UNKNOWN\<close> is modelled as inequality of strings.
\<close>

definition db_labels_for_tbd :: "ibs \<Rightarrow> aid list \<Rightarrow> string list" where
  "db_labels_for_tbd ibs daid_list =
     (let db_labels = map (get_annot_name_texts ibs) daid_list;
          db_auuids = map (get_annot_semantic_uuids ibs) daid_list;
          db_auuids = map (\<lambda>auuid. UNKNOWN @ auuid) db_auuids;
          db_labels = map (\<lambda>(lab, auuid). if lab \<noteq> UNKNOWN then lab else auuid)
                          (zip db_labels db_auuids)
      in db_labels)"

text \<open>
  One entry of the list \<open>pred_light\<close> returns: a dict with the keys \<open>'label'\<close> and
  \<open>'distance'\<close>.
  \<^verbatim>\<open>
  def distance_dicts_to_name_score_dicts(distance_dicts, conversion_func=distance_to_score):
      score_dicts = distance_dicts.copy()
      name_score_dicts = {}
      for entry in score_dicts:
          name_score_dicts[entry['label']] = conversion_func(entry['distance'])
      return name_score_dicts
  \<close>
\<close>

record distance_dict =
  label :: string
  distance :: real

definition distance_dicts_to_name_score_dicts ::
  "distance_dict list \<Rightarrow> (real \<Rightarrow> number) \<Rightarrow> (string \<times> number) list" where
  "distance_dicts_to_name_score_dicts distance_dicts conversion_func =
     (let score_dicts = distance_dicts
      in fold (\<lambda>entry name_score_dicts.
                 AList.update (label entry) (conversion_func (distance entry)) name_score_dicts)
              score_dicts [])"

text \<open>
  \<^verbatim>\<open>
  def aid_scores_from_name_scores(ibs, name_score_dict, daid_list):
      daid_name_list = list(_db_labels_for_tbd(ibs, daid_list))

      name_count_dict = {
          name: daid_name_list.count(name) for name in name_score_dict.keys()
      }

      name_annotwise_score_dict = {
          name: name_score_dict[name] / name_count_dict[name]
          for name in name_score_dict.keys()
      }

      from collections import defaultdict

      name_annotwise_score_dict = defaultdict(float, name_annotwise_score_dict)

      # bc daid_name_list is in the same order as daid_list
      daid_scores = [name_annotwise_score_dict[name] for name in daid_name_list]
      return daid_scores
  \<close>
\<close>

definition aid_scores_from_name_scores ::
  "ibs \<Rightarrow> (string \<times> number) list \<Rightarrow> aid list \<Rightarrow> error + number list" where
  "aid_scores_from_name_scores ibs name_score_dict daid_list =
     (let daid_name_list = db_labels_for_tbd ibs daid_list;
          name_count_dict =
            map (\<lambda>name. (name, count_list daid_name_list name)) (dict_keys name_score_dict)
      in case collect
                (map (\<lambda>name.
                        case getitem name_score_dict name of
                          Inl e \<Rightarrow> Inl e
                        | Inr s \<Rightarrow>
                            (case getitem name_count_dict name of
                               Inl e \<Rightarrow> Inl e
                             | Inr k \<Rightarrow>
                                 (case truediv s k of
                                    Inl e \<Rightarrow> Inl e
                                  | Inr q \<Rightarrow> Inr (name, q))))
                     (dict_keys name_score_dict))
         of
           Inl e \<Rightarrow> Inl e
         | Inr name_annotwise_score_dict \<Rightarrow>
             Inr (map (defaultdict_float_getitem name_annotwise_score_dict) daid_name_list))"

text \<open>
  The quotient a name's annotations receive, for the cases in which \<open>truediv\<close> does
  not raise, and the score \<open>aid_scores_from_name_scores\<close> then gives to an annotation
  with a given label.
\<close>

definition quot :: "number \<Rightarrow> nat \<Rightarrow> number" where
  "quot s k = (case truediv s k of Inl e \<Rightarrow> s | Inr q \<Rightarrow> q)"

definition annotwise :: "string list \<Rightarrow> (string \<times> number) list \<Rightarrow> string \<Rightarrow> number" where
  "annotwise labels d name =
     (case map_of d name of None \<Rightarrow> PyFloat 0 | Some s \<Rightarrow> quot s (count_list labels name))"

text \<open>
  Some key of the name-score dictionary holds a plain Python number and labels no
  database annotation: the one situation in which the division raises.
\<close>

definition orphan_python_key :: "string list \<Rightarrow> (string \<times> number) list \<Rightarrow> bool" where
  "orphan_python_key labels d =
     list_ex (\<lambda>name. count_list labels name = 0 \<and>
                (case map_of d name of Some (PyFloat s) \<Rightarrow> True | _ \<Rightarrow> False))
             (dict_keys d)"


text \<open>
  A small database for concrete runs: annotations 1 and 2 are named \<open>a\<close>, annotation 3
  is named \<open>b\<close>, every other annotation has no name; every annotation is a beluga, and
  the dependency cache answers with the embedding \<open>[aid, 1]\<close> for annotation \<open>aid\<close>.
\<close>

definition ibs_demo :: ibs where
  "ibs_demo =
     \<lparr> get_annot_name_texts =
         (\<lambda>aid. if aid = 1 \<or> aid = 2 then ''a'' else if aid = 3 then ''b'' else UNKNOWN),
       get_annot_semantic_uuids = (\<lambda>aid. if aid = 4 then ''u4'' else ''u''),
       get_annot_species_texts = (\<lambda>aid. ''whale_beluga''),
       depc_annot_get = (\<lambda>aids config. Inr (map (\<lambda>aid. [real_of_int aid, 1]) aids)) \<rparr>"

section \<open>Tensors\<close>

text \<open>
  A tensor is a nested list of reals (floats without rounding): \<open>tensor2\<close> has the
  shape (batch, features), \<open>tensor4\<close> the shape (batch, channels, height, width).
  The operations below are the ones of torch that \<open>models/model.py\<close> calls.
\<close>

type_synonym tensor2 = "real list list"

type_synonym tensor4 = "real list list list list"

definition map4 :: "(real \<Rightarrow> real) \<Rightarrow> tensor4 \<Rightarrow> tensor4" where
  "map4 f x = map (map (map (map f))) x"

text \<open>\<open>x.clamp(min=eps)\<close>, elementwise.\<close>

definition clamp_min :: "tensor4 \<Rightarrow> real \<Rightarrow> tensor4" where
  "clamp_min x e = map4 (\<lambda>v. max v e) x"

text \<open>
  \<open>x.pow(p)\<close>, elementwise, with a float exponent. \<open>powr\<close> is torch's power for a
  positive base, which is the only case \<open>gem\<close> meets when \<open>eps\<close> is positive.
\<close>

definition pow :: "tensor4 \<Rightarrow> real \<Rightarrow> tensor4" where
  "pow x e = map4 (\<lambda>v. v powr e) x"

text \<open>
  \<open>F.avg_pool2d(x, (x.size(-2), x.size(-1)))\<close>: one window that covers the whole
  height and width, so every channel map becomes the 1 x 1 map of its mean. torch refuses
  a window without elements (\<open>RuntimeError\<close>).
\<close>

definition avg_pool2d :: "tensor4 \<Rightarrow> error + tensor4" where
  "avg_pool2d x =
     (if list_ex (list_ex (\<lambda>m. concat m = [])) x then Inl RuntimeError
      else Inr (map (map (\<lambda>m. [[sum_list (concat m) / real (length (concat m))]])) x))"

text \<open>
  \<open>x.view(batch_size, -1)\<close>: the elements in row-major order, cut into
  \<open>batch_size\<close> rows of equal length. torch raises when \<open>batch_size\<close> is 0 (the
  size \<open>-1\<close> cannot be inferred) or does not divide the number of elements.
\<close>

definition view :: "tensor4 \<Rightarrow> nat \<Rightarrow> error + tensor2" where
  "view x batch_size =
     (let flat = concat (concat (concat x)) in
      if batch_size = 0 \<or> length flat mod batch_size \<noteq> 0 then Inl RuntimeError
      else let w = length flat div batch_size
           in Inr (map (\<lambda>i. take w (drop (i * w) flat)) [0..<batch_size]))"

section \<open>GeM pooling (\<open>wbia_miew_id/models/model.py\<close>)\<close>

text \<open>
  \<^verbatim>\<open>
  class GeM(nn.Module):
      def __init__(self, p=3, eps=1e-6):
          super(GeM, self).__init__()
          self.p = nn.Parameter(torch.ones(1)*p)
          self.eps = eps

      def forward(self, x):
          return self.gem(x, p=self.p, eps=self.eps)

      def gem(self, x, p=3, eps=1e-6):
          return F.avg_pool2d(x.clamp(min=eps).pow(p), (x.size(-2), x.size(-1))).pow(1./p)
  \<close>
\<close>

record GeM =
  gem_p :: real
  gem_eps :: real

definition GeM_init :: "real \<Rightarrow> real \<Rightarrow> GeM" where
  "GeM_init p eps = \<lparr> gem_p = p, gem_eps = eps \<rparr>"

text \<open>\<open>GeM()\<close>: the defaults \<open>p=3\<close>, \<open>eps=1e-6\<close>.\<close>

definition GeM_default :: GeM where
  "GeM_default = GeM_init 3 (1 / 1000000)"

definition gem :: "tensor4 \<Rightarrow> real \<Rightarrow> real \<Rightarrow> error + tensor4" where
  "gem x p eps =
     (case avg_pool2d (pow (clamp_min x eps) p) of
        Inl e \<Rightarrow> Inl e
      | Inr y \<Rightarrow> Inr (pow y (1 / p)))"

definition GeM_forward :: "GeM \<Rightarrow> tensor4 \<Rightarrow> error + tensor4" where
  "GeM_forward self x = gem x (gem_p self) (gem_eps self)"

text \<open>
  The formula of the specification for one channel map \<open>m\<close> (a list of rows): the
  \<open>p\<close>-th root of the mean, over the spatial positions, of the \<open>p\<close>-th powers of the
  entries clamped from below at \<open>eps\<close>. And standard average pooling of a channel map.
\<close>

definition gem_formula :: "real \<Rightarrow> real \<Rightarrow> real list list \<Rightarrow> real" where
  "gem_formula p eps m =
     (sum_list (map (\<lambda>v. (max v eps) powr p) (concat m)) / real (length (concat m))) powr (1 / p)"


section \<open>The embedding model (\<open>wbia_miew_id/models/model.py\<close>)\<close>

text \<open>
  The layers come from torch and timm, and the margin head from \<open>heads.py\<close>; none of
  their code is in the repository's files, so a layer is an opaque callable: it takes the
  module's mode (\<open>training\<close>) and a tensor, and returns a tensor or raises. The library is
  a parameter of the constructor. Buffers that a layer updates during a training-mode call
  are not part of the model. Sizes are natural numbers.
\<close>

type_synonym layer = "bool \<Rightarrow> tensor2 \<Rightarrow> error + tensor2"

type_synonym margin_head = "bool \<Rightarrow> tensor2 \<Rightarrow> int list \<Rightarrow> error + tensor2"

text \<open>
  What \<open>timm.create_model\<close> returns: \<open>classifier_in_features\<close> is
  \<open>backbone.classifier.in_features\<close> (\<open>None\<close> when the network has no such
  attribute), and \<open>forward_features\<close> is the network once its \<open>classifier\<close> and
  \<open>global_pool\<close> are replaced by \<open>nn.Identity()\<close>.
\<close>

record timm_model =
  classifier_in_features :: "nat option"
  forward_features :: "bool \<Rightarrow> tensor4 \<Rightarrow> error + tensor4"

record torch_lib =
  timm_create_model :: "string \<Rightarrow> bool \<Rightarrow> error + timm_model"
  nn_BatchNorm1d :: "nat \<Rightarrow> layer"
  nn_Dropout :: "real \<Rightarrow> layer"
  nn_Linear :: "nat \<Rightarrow> nat \<Rightarrow> bool \<Rightarrow> layer"
  heads_ElasticArcFace :: "nat \<Rightarrow> nat \<Rightarrow> real \<Rightarrow> real \<Rightarrow> margin_head"

text \<open>
  \<open>self.final\<close> is an \<open>ElasticArcFace\<close>, called with the feature and the label, or
  an \<open>nn.Linear\<close>, called with the feature alone. Calling one with the other's
  arguments is a \<open>TypeError\<close>.
\<close>

datatype final_module = FinalElasticArcFace margin_head | FinalLinear layer

definition call_final2 :: "final_module \<Rightarrow> bool \<Rightarrow> tensor2 \<Rightarrow> int list \<Rightarrow> error + tensor2" where
  "call_final2 f mode feature lab =
     (case f of FinalElasticArcFace h \<Rightarrow> h mode feature lab | FinalLinear l \<Rightarrow> Inl TypeError)"

definition call_final1 :: "final_module \<Rightarrow> bool \<Rightarrow> tensor2 \<Rightarrow> error + tensor2" where
  "call_final1 f mode feature =
     (case f of FinalElasticArcFace h \<Rightarrow> Inl TypeError | FinalLinear l \<Rightarrow> l mode feature)"

text \<open>
  The attributes of a \<open>MiewIdNet\<close>. \<open>dropout\<close> and \<open>fc\<close> exist only when the
  constructor ran with \<open>use_fc\<close>; reading a missing attribute is an
  \<open>AttributeError\<close>.
\<close>

record MiewIdNet =
  backbone :: "bool \<Rightarrow> tensor4 \<Rightarrow> error + tensor4"
  pooling :: GeM
  bn :: layer
  use_fc :: bool
  dropout :: "layer option"
  fc :: "layer option"
  loss_module :: string
  final :: final_module
  training :: bool

text \<open>
  The keyword arguments of the constructor (\<open>config.model_params\<close>), each field named
  \<open>cfg_\<close> followed by the keyword.
\<close>

record model_params =
  cfg_n_classes :: nat
  cfg_model_name :: string
  cfg_use_fc :: bool
  cfg_fc_dim :: nat
  cfg_dropout :: real
  cfg_loss_module :: string
  cfg_s :: real
  cfg_margin :: real
  cfg_ls_eps :: real
  cfg_theta_zero :: real
  cfg_pretrained :: bool

text \<open>
  \<^verbatim>\<open>
  def __init__(self, n_classes, model_name='efficientnet_b0', use_fc=False, fc_dim=512,
               dropout=0.0, loss_module='softmax', s=30.0, margin=0.50, ls_eps=0.0,
               theta_zero=0.785, pretrained=True):
      super(MiewIdNet, self).__init__()
      self.backbone = timm.create_model(model_name, pretrained=pretrained)
      final_in_features = self.backbone.classifier.in_features
      self.backbone.classifier = nn.Identity()
      self.backbone.global_pool = nn.Identity()
      self.pooling =  GeM()
      self.bn = nn.BatchNorm1d(final_in_features)
      self.use_fc = use_fc
      if use_fc:
          self.dropout = nn.Dropout(p=dropout)
          self.bn = nn.BatchNorm1d(fc_dim)
          self.bn.bias.requires_grad_(False)
          self.fc = nn.Linear(final_in_features, n_classes, bias = False)
          self.bn.apply(weights_init_kaiming)
          self.fc.apply(weights_init_classifier)
          final_in_features = fc_dim
      self.loss_module = loss_module
      if loss_module == 'arcface':
          self.final = ElasticArcFace(final_in_features, n_classes, s=s, m=margin)
      else:
          self.final = nn.Linear(final_in_features, n_classes)
  \<close>
  A new module is in training mode.
\<close>

definition MiewIdNet_init :: "torch_lib \<Rightarrow> model_params \<Rightarrow> error + MiewIdNet" where
  "MiewIdNet_init lib params =
     (case timm_create_model lib (cfg_model_name params) (cfg_pretrained params) of
        Inl e \<Rightarrow> Inl e
      | Inr created \<Rightarrow>
          (case classifier_in_features created of
             None \<Rightarrow> Inl AttributeError
           | Some final_in_features \<Rightarrow>
               let head_in_features =
                     (if cfg_use_fc params then cfg_fc_dim params else final_in_features)
               in Inr \<lparr>
                    backbone = forward_features created,
                    pooling = GeM_default,
                    bn = (if cfg_use_fc params then nn_BatchNorm1d lib (cfg_fc_dim params)
                          else nn_BatchNorm1d lib final_in_features),
                    use_fc = cfg_use_fc params,
                    dropout = (if cfg_use_fc params then Some (nn_Dropout lib (cfg_dropout params))
                               else None),
                    fc = (if cfg_use_fc params
                          then Some (nn_Linear lib final_in_features (cfg_n_classes params) False)
                          else None),
                    loss_module = cfg_loss_module params,
                    final =
                      (if cfg_loss_module params = ''arcface''
                       then FinalElasticArcFace
                              (heads_ElasticArcFace lib head_in_features (cfg_n_classes params)
                                 (cfg_s params) (cfg_margin params))
                       else FinalLinear (nn_Linear lib head_in_features (cfg_n_classes params) True)),
                    training = True \<rparr>))"

text \<open>
  \<^verbatim>\<open>
  def extract_feat(self, x):
      batch_size = x.shape[0]
      x = self.backbone(x)
      x = self.pooling(x).view(batch_size, -1)
      x = self.bn(x)
      if self.use_fc:
          x1 = self.dropout(x)
          x1 = self.bn(x1)
          x1 = self.fc(x1)

      return x
  \<close>
\<close>

definition extract_feat :: "MiewIdNet \<Rightarrow> tensor4 \<Rightarrow> error + tensor2" where
  "extract_feat self x =
     (let batch_size = length x in
      case backbone self (training self) x of
        Inl e \<Rightarrow> Inl e
      | Inr x \<Rightarrow>
     (case GeM_forward (pooling self) x of
        Inl e \<Rightarrow> Inl e
      | Inr pooled \<Rightarrow>
     (case view pooled batch_size of
        Inl e \<Rightarrow> Inl e
      | Inr x \<Rightarrow>
     (case bn self (training self) x of
        Inl e \<Rightarrow> Inl e
      | Inr x \<Rightarrow>
          if use_fc self then
            (case dropout self of
               None \<Rightarrow> Inl AttributeError
             | Some dropout_layer \<Rightarrow>
            (case dropout_layer (training self) x of
               Inl e \<Rightarrow> Inl e
             | Inr x1 \<Rightarrow>
            (case bn self (training self) x1 of
               Inl e \<Rightarrow> Inl e
             | Inr x1 \<Rightarrow>
            (case fc self of
               None \<Rightarrow> Inl AttributeError
             | Some fc_layer \<Rightarrow>
            (case fc_layer (training self) x1 of
               Inl e \<Rightarrow> Inl e
             | Inr x1 \<Rightarrow> Inr x)))))
          else Inr x))))"

text \<open>
  \<^verbatim>\<open>
  def forward(self, x, label=None):
      feature = self.extract_feat(x)
      if not self.training:
          return feature
      else:
          assert label is not None
      if self.loss_module in ('arcface', 'cosface', 'adacos'):
          logits = self.final(feature, label)
      else:
          logits = self.final(feature)
      return logits
  \<close>
  The \<open>assert\<close> is checked (the interpreter does not run with \<open>-O\<close>).
\<close>

definition forward :: "MiewIdNet \<Rightarrow> tensor4 \<Rightarrow> int list option \<Rightarrow> error + tensor2" where
  "forward self x lab =
     (case extract_feat self x of
        Inl e \<Rightarrow> Inl e
      | Inr feature \<Rightarrow>
          if \<not> training self then Inr feature
          else
            (case lab of
               None \<Rightarrow> Inl AssertionError
             | Some lab' \<Rightarrow>
                 if loss_module self \<in> set [''arcface'', ''cosface'', ''adacos'']
                 then call_final2 (final self) (training self) feature lab'
                 else call_final1 (final self) (training self) feature))"

text \<open>\<open>model.eval()\<close>.\<close>

definition eval_mode :: "MiewIdNet \<Rightarrow> MiewIdNet" where
  "eval_mode self = self\<lparr>training := False\<rparr>"

text \<open>
  A library for concrete runs. The backbone has two final feature channels and returns
  its input as the feature maps; batch normalisation checks the width it was built for
  and has the statistics that make it the identity; dropout is the identity (as in
  inference mode, and for \<open>p = 0\<close>); a linear layer checks the input width and has all
  weights 1 and no offset; the margin head returns one logit row of zeros per sample.
\<close>

definition torch_demo :: torch_lib where
  "torch_demo =
     \<lparr> timm_create_model =
         (\<lambda>name pretrained.
            Inr \<lparr> classifier_in_features = Some 2, forward_features = (\<lambda>mode x. Inr x) \<rparr>),
       nn_BatchNorm1d =
         (\<lambda>n mode x. if list_all (\<lambda>row. length row = n) x then Inr x else Inl RuntimeError),
       nn_Dropout = (\<lambda>p mode x. Inr x),
       nn_Linear =
         (\<lambda>n_in n_out bias mode x.
            if list_all (\<lambda>row. length row = n_in) x
            then Inr (map (\<lambda>row. replicate n_out (sum_list row)) x)
            else Inl RuntimeError),
       heads_ElasticArcFace =
         (\<lambda>n_in n_out s m mode x lab.
            if length lab = length x then Inr (map (\<lambda>row. replicate n_out 0) x)
            else Inl RuntimeError) \<rparr>"

definition params_demo :: model_params where
  "params_demo =
     \<lparr> cfg_n_classes = 3, cfg_model_name = ''efficientnet_b0'', cfg_use_fc = True,
       cfg_fc_dim = 2, cfg_dropout = 0, cfg_loss_module = ''arcface'', cfg_s = 30,
       cfg_margin = 1 / 2, cfg_ls_eps = 0, cfg_theta_zero = 785 / 1000,
       cfg_pretrained = False \<rparr>"

text \<open>
  The model that \<open>MiewIdNet(n_classes=3, use_fc=True, fc_dim=2, loss_module='arcface')\<close>
  builds over \<open>torch_demo\<close>.
\<close>

definition net_demo :: MiewIdNet where
  "net_demo =
     \<lparr> backbone = (\<lambda>mode x. Inr x),
       pooling = GeM_default,
       bn = nn_BatchNorm1d torch_demo 2,
       use_fc = True,
       dropout = Some (nn_Dropout torch_demo 0),
       fc = Some (nn_Linear torch_demo 2 3 False),
       loss_module = ''arcface'',
       final = FinalElasticArcFace (heads_ElasticArcFace torch_demo 2 3 30 (1 / 2)),
       training = True \<rparr>"

section \<open>Training setup (\<open>wbia_miew_id/train.py\<close>)\<close>

text \<open>
  The part of \<open>run\<close> that settles the class count and builds the model. The data
  frames, loaders, loss, optimiser and scheduler around it belong to other modules and
  libraries and are not modelled; \<open>names\<close> stands for the column \<open>df_train['name']\<close>
  (identities already converted to ids) and \<open>out\<close> for what has been printed.
  \<^verbatim>\<open>
  n_train_classes = df_train['name'].nunique()
  ...
  if config.model_params.n_classes != n_train_classes:
      print(f"WARNING: Overriding n_classes in config ({config.model_params.n_classes}) which is
              different from actual n_train_classes ({n_train_classes}). This parameters has to be
              readjusted in config for proper checkpoint loading after training.")
      config.model_params.n_classes = n_train_classes
  model = MiewIdNet(**dict(config.model_params))
  \<close>
\<close>

record train_config =
  config_model_params :: model_params

text \<open>
  The printed warning, with the two numbers its text carries: the configured and the
  observed class count.
\<close>

datatype printed = WARNING_Overriding_n_classes nat nat

definition nunique :: "'a list \<Rightarrow> nat" where
  "nunique column = length (remdups column)"

definition run_build_model ::
  "torch_lib \<Rightarrow> train_config \<Rightarrow> nat list \<Rightarrow> printed list
     \<Rightarrow> (error + MiewIdNet) \<times> train_config \<times> printed list" where
  "run_build_model lib config names out =
     (let n_train_classes = nunique names;
          mismatch = (cfg_n_classes (config_model_params config) \<noteq> n_train_classes);
          out = (if mismatch
                 then out @ [WARNING_Overriding_n_classes
                               (cfg_n_classes (config_model_params config)) n_train_classes]
                 else out);
          config = (if mismatch
                    then config\<lparr>config_model_params :=
                           (config_model_params config)\<lparr>cfg_n_classes := n_train_classes\<rparr>\<rparr>
                    else config)
      in (MiewIdNet_init lib (config_model_params config), config, out))"

section \<open>The embedding cache (\<open>wbia_tbd/_plugin.py\<close>)\<close>

text \<open>
  \<open>_load_config\<close>, \<open>_load_model\<close> and \<open>_load_data\<close> download files and call
  \<open>get_config\<close>, \<open>get_model\<close>, \<open>PluginDataset\<close> and torch's \<open>DataLoader\<close>;
  \<open>pred_light\<close> and \<open>compute_distance_matrix\<close> come from \<open>wbia_tbd.metrics\<close>. None
  of that code is in the repository's files, so the model takes them as the fields of a
  record: \<open>load_data\<close> gives the image batches the loader yields, in order, and
  \<open>list_of_set\<close> is the order in which Python iterates over \<open>set(xs)\<close>.
\<close>

record plugin_config =
  config_use_gpu :: bool

record runtime =
  load_config :: "string \<Rightarrow> error + plugin_config"
  load_model :: "plugin_config \<Rightarrow> string \<Rightarrow> error + MiewIdNet"
  load_data :: "ibs \<Rightarrow> aid list \<Rightarrow> plugin_config \<Rightarrow> error + tensor4 list"
  pred_light :: "tensor2 \<Rightarrow> tensor2 \<Rightarrow> string list \<Rightarrow> error + distance_dict list"
  compute_distance_matrix :: "tensor2 \<Rightarrow> tensor2 \<Rightarrow> error + tensor2"
  list_of_set :: "aid list \<Rightarrow> aid list"

definition CONFIGS :: "(string \<times> string) list" where
  "CONFIGS =
     [(''whale_beluga'', ''https://cthulhu.dyn.wildme.io/public/models/tbd.beluga.yaml''),
      (''delphinapterus_leucas'', ''https://cthulhu.dyn.wildme.io/public/models/tbd.beluga.yaml'')]"

definition MODELS :: "(string \<times> string) list" where
  "MODELS =
     [(''whale_beluga'', ''https://cthulhu.dyn.wildme.io/public/models/tbd.beluga.bin''),
      (''delphinapterus_leucas'', ''https://cthulhu.dyn.wildme.io/public/models/tbd.beluga.bin'')]"

text \<open>
  \<open>np.concatenate(embeddings)\<close> of a list of two-dimensional arrays: the rows of all of
  them; \<open>ValueError\<close> for an empty list and for rows of different widths.
\<close>

definition np_concatenate :: "tensor2 list \<Rightarrow> error + tensor2" where
  "np_concatenate arrays =
     (if arrays = [] then Inl ValueError
      else let rows = concat arrays
           in if list_all (\<lambda>row. length row = length (hd rows)) rows then Inr rows
              else Inl ValueError)"

text \<open>
  \<^verbatim>\<open>
  def tbd_compute_embedding(ibs, aid_list, config=None, multithread=False):
      # Get species from the first annotation
      species = ibs.get_annot_species_texts(aid_list[0])

      # Load config
      if config is None:
          config = CONFIGS[species]
      config = _load_config(config)

      # Load model
      model = _load_model(config, MODELS[species])

      # Preprocess images to model input
      test_loader, test_dataset = _load_data(ibs, aid_list, config, multithread)

      # Compute embeddings
      embeddings = []
      model.eval()
      with torch.no_grad():
          for images, names in test_loader:
              if config.use_gpu:
                  images = images.cuda(non_blocking=True)

              output = model(images.float())
              embeddings.append(output.detach().cpu().numpy())

      embeddings = np.concatenate(embeddings)
      return embeddings
  \<close>
\<close>

definition tbd_compute_embedding ::
  "runtime \<Rightarrow> ibs \<Rightarrow> aid list \<Rightarrow> string option \<Rightarrow> error + embedding list" where
  "tbd_compute_embedding rt ibs aid_list config =
     (case aid_list of
        [] \<Rightarrow> Inl IndexError
      | first_aid # _ \<Rightarrow>
          let species = get_annot_species_texts ibs first_aid in
          case (case config of None \<Rightarrow> getitem CONFIGS species | Some c \<Rightarrow> Inr c) of
            Inl e \<Rightarrow> Inl e
          | Inr config \<Rightarrow>
         (case load_config rt config of
            Inl e \<Rightarrow> Inl e
          | Inr config \<Rightarrow>
         (case getitem MODELS species of
            Inl e \<Rightarrow> Inl e
          | Inr model_url \<Rightarrow>
         (case load_model rt config model_url of
            Inl e \<Rightarrow> Inl e
          | Inr model \<Rightarrow>
         (case load_data rt ibs aid_list config of
            Inl e \<Rightarrow> Inl e
          | Inr test_loader \<Rightarrow>
              let model = eval_mode model in
              case collect (map (\<lambda>images. forward model images None) test_loader) of
                Inl e \<Rightarrow> Inl e
              | Inr embeddings \<Rightarrow> np_concatenate embeddings)))))"

text \<open>
  The state of the process: the module's global dictionary, and a trace of the batched
  embedding computations \<open>tbd_embedding\<close> has asked for, oldest first. The trace is not
  a variable of the program; it records, for the properties below, each evaluation of
  line 107 or line 111 with the list of annotations passed.
\<close>

record world =
  GLOBAL_EMBEDDING_CACHE :: "aid \<rightharpoonup> embedding"
  computations :: "aid list list"

text \<open>\<open>ut.take(d, keys)\<close>: \<open>[d[key] for key in keys]\<close>.\<close>

definition ut_take :: "('k \<rightharpoonup> 'v) \<Rightarrow> 'k list \<Rightarrow> error + 'v list" where
  "ut_take d ks = collect (map (\<lambda>k. case d k of None \<Rightarrow> Inl KeyError | Some v \<Rightarrow> Inr v) ks)"

text \<open>
  \<^verbatim>\<open>
  def tbd_embedding(ibs, aid_list, config=None, use_depc=True):
      global GLOBAL_EMBEDDING_CACHE

      dirty_aids = []
      for aid in aid_list:
          if aid not in GLOBAL_EMBEDDING_CACHE:
              dirty_aids.append(aid)

      if len(dirty_aids) > 0:
          print('Computing %d non-cached embeddings' % (len(dirty_aids), ))
          if use_depc:
              config_map = {'config_path': config}
              dirty_embeddings = ibs.depc_annot.get(
                  'TbdEmbedding', dirty_aids, 'embedding', config_map
              )
          else:
              dirty_embeddings = tbd_compute_embedding(ibs, dirty_aids, config)

          for dirty_aid, dirty_embedding in zip(dirty_aids, dirty_embeddings):
              GLOBAL_EMBEDDING_CACHE[dirty_aid] = dirty_embedding

      embeddings = ut.take(GLOBAL_EMBEDDING_CACHE, aid_list)

      return embeddings
  \<close>
  The function returns its result, or the exception, together with the new state.
\<close>

definition dirty_aids_of :: "world \<Rightarrow> aid list \<Rightarrow> aid list" where
  "dirty_aids_of w aid_list = filter (\<lambda>aid. GLOBAL_EMBEDDING_CACHE w aid = None) aid_list"

definition compute_dirty ::
  "runtime \<Rightarrow> ibs \<Rightarrow> aid list \<Rightarrow> string option \<Rightarrow> bool \<Rightarrow> error + embedding list" where
  "compute_dirty rt ibs dirty_aids config use_depc =
     (if use_depc then depc_annot_get ibs dirty_aids config
      else tbd_compute_embedding rt ibs dirty_aids config)"

definition tbd_embedding ::
  "runtime \<Rightarrow> ibs \<Rightarrow> aid list \<Rightarrow> string option \<Rightarrow> bool \<Rightarrow> world
     \<Rightarrow> (error + embedding list) \<times> world" where
  "tbd_embedding rt ibs aid_list config use_depc w =
     (let dirty_aids = dirty_aids_of w aid_list in
      if length dirty_aids > 0 then
        let w = w\<lparr>computations := computations w @ [dirty_aids]\<rparr> in
        case compute_dirty rt ibs dirty_aids config use_depc of
          Inl e \<Rightarrow> (Inl e, w)
        | Inr dirty_embeddings \<Rightarrow>
            let w = w\<lparr>GLOBAL_EMBEDDING_CACHE :=
                        fold (\<lambda>(dirty_aid, dirty_embedding) cache.
                                cache(dirty_aid \<mapsto> dirty_embedding))
                             (zip dirty_aids dirty_embeddings) (GLOBAL_EMBEDDING_CACHE w)\<rparr>
            in (ut_take (GLOBAL_EMBEDDING_CACHE w) aid_list, w)
      else (ut_take (GLOBAL_EMBEDDING_CACHE w) aid_list, w))"

text \<open>
  For concrete runs: \<open>_load_config\<close> and \<open>_load_model\<close> succeed and give the demo
  model, the loader yields one batch holding, per annotation, the two 1 x 1 channel maps
  \<open>aid\<close> and 1; the nearest-neighbour search answers with the name \<open>a\<close> at distance
  1/2, the distance matrix with one row holding the distance 1/4 to every database
  embedding; a set is iterated in the order of first occurrence.
\<close>

definition rt_demo :: runtime where
  "rt_demo =
     \<lparr> load_config = (\<lambda>url. Inr \<lparr>config_use_gpu = False\<rparr>),
       load_model = (\<lambda>config url. Inr net_demo),
       load_data = (\<lambda>ibs aids config. Inr [map (\<lambda>aid. [[[real_of_int aid]], [[1]]]) aids]),
       pred_light = (\<lambda>query_emb db_embs db_labels. Inr [\<lparr>label = ''a'', distance = 1 / 2\<rparr>]),
       compute_distance_matrix = (\<lambda>input1 input2. Inr [map (\<lambda>e. 1 / 4) input2]),
       list_of_set = remdups \<rparr>"

definition world_demo :: world where
  "world_demo = \<lparr> GLOBAL_EMBEDDING_CACHE = [1 \<mapsto> [1, 1]], computations = [] \<rparr>"

section \<open>Pairwise scoring (\<open>wbia_tbd/_plugin.py\<close>)\<close>

text \<open>
  \<^verbatim>\<open>
  def tbd_predict_light(ibs, qaid, daid_list, config=None):
      db_embs = np.array(ibs.tbd_embedding(daid_list, config))
      db_labels = np.array(ibs.get_annot_name_texts(daid_list, config))
      query_emb = np.array(ibs.tbd_embedding([qaid], config))

      ans = pred_light(query_emb, db_embs, db_labels)
      return ans
  \<close>
\<close>

definition tbd_predict_light ::
  "runtime \<Rightarrow> ibs \<Rightarrow> aid \<Rightarrow> aid list \<Rightarrow> string option \<Rightarrow> world
     \<Rightarrow> (error + distance_dict list) \<times> world" where
  "tbd_predict_light rt ibs qaid daid_list config w =
     (case tbd_embedding rt ibs daid_list config True w of
        (Inl e, w) \<Rightarrow> (Inl e, w)
      | (Inr db_embs, w) \<Rightarrow>
          let db_labels = map (get_annot_name_texts ibs) daid_list in
          case tbd_embedding rt ibs [qaid] config True w of
            (Inl e, w) \<Rightarrow> (Inl e, w)
          | (Inr query_emb, w) \<Rightarrow> (pred_light rt query_emb db_embs db_labels, w))"

text \<open>
  \<^verbatim>\<open>
  def tbd_predict_light_distance(ibs, qaid, daid_list, config=None):
      assert len(daid_list) == len(set(daid_list))
      db_embs = np.array(ibs.tbd_embedding(daid_list, config))
      query_emb = np.array(ibs.tbd_embedding([qaid], config))

      input1 = torch.Tensor(query_emb)
      input2 = torch.Tensor(db_embs)
      distmat = compute_distance_matrix(input1, input2, metric='cosine')
      distances = np.array(distmat[0])
      return distances
  \<close>
\<close>

definition tbd_predict_light_distance ::
  "runtime \<Rightarrow> ibs \<Rightarrow> aid \<Rightarrow> aid list \<Rightarrow> string option \<Rightarrow> world
     \<Rightarrow> (error + real list) \<times> world" where
  "tbd_predict_light_distance rt ibs qaid daid_list config w =
     (if length daid_list \<noteq> card (set daid_list) then (Inl AssertionError, w)
      else
        case tbd_embedding rt ibs daid_list config True w of
          (Inl e, w) \<Rightarrow> (Inl e, w)
        | (Inr db_embs, w) \<Rightarrow>
            (case tbd_embedding rt ibs [qaid] config True w of
               (Inl e, w) \<Rightarrow> (Inl e, w)
             | (Inr query_emb, w) \<Rightarrow>
                 (case compute_distance_matrix rt query_emb db_embs of
                    Inl e \<Rightarrow> (Inl e, w)
                  | Inr distmat \<Rightarrow>
                      (case distmat of
                         [] \<Rightarrow> (Inl IndexError, w)
                       | distances # _ \<Rightarrow> (Inr distances, w)))))"

text \<open>
  The configuration of the scoring table (\<open>TbdConfig\<close>): \<open>config['config_path']\<close> and
  \<open>config.get('use_knn', True)\<close>.
\<close>

record tbd_config =
  config_path :: "string option"
  use_knn :: bool

text \<open>\<open>dict(pairs)\<close>: a later pair replaces an earlier one with the same key.\<close>

definition dict_of_pairs :: "('k \<times> 'v) list \<Rightarrow> ('k \<times> 'v) list" where
  "dict_of_pairs pairs = fold (\<lambda>(k, v) d. AList.update k v d) pairs []"

text \<open>
  \<^verbatim>\<open>
  def wbia_plugin_tbd(depc, qaid_list, daid_list, config):
      def distance_to_score(distance):
          score = 1 - distance
          return score
      ibs = depc.controller

      qaids = list(set(qaid_list))
      daids = list(set(daid_list))

      use_knn = config.get('use_knn', True)

      qaid_score_dict = {}
      for qaid in tqdm.tqdm(qaids):
          if use_knn:
                  tbd_name_dists = ibs.tbd_predict_light(
                      qaid,
                      daids,
                      config['config_path'],
                  )
                  tbd_name_scores = distance_dicts_to_name_score_dicts(tbd_name_dists)

                  aid_score_list = aid_scores_from_name_scores(ibs, tbd_name_scores, daids)
                  aid_score_dict = dict(zip(daids, aid_score_list))

                  qaid_score_dict[qaid] = aid_score_dict
          else:
              tbd_annot_distances = ibs.tbd_predict_light_distance(
                  qaid,
                  daids,
                  config['config_path'],
              )
              qaid_score_dict[qaid] = {}
              for daid, tbd_annot_distance in zip(daids, tbd_annot_distances):
                  qaid_score_dict[qaid][daid] = distance_to_score(tbd_annot_distance)
                  print('dist', tbd_annot_distance, qaid_score_dict[qaid][daid])

      for qaid, daid in zip(qaid_list, daid_list):
          if qaid == daid:
              daid_score = 0.0
          else:
              aid_score_dict = qaid_score_dict.get(qaid, {})
              daid_score = aid_score_dict.get(daid)
          yield (daid_score,)
  \<close>
  The first loop, over the query annotations, with \<open>qaid_score_dict\<close> as it stands:
\<close>

fun score_queries ::
  "runtime \<Rightarrow> ibs \<Rightarrow> tbd_config \<Rightarrow> aid list \<Rightarrow> aid list
     \<Rightarrow> (aid \<times> (aid \<times> number) list) list \<Rightarrow> world
     \<Rightarrow> (error + (aid \<times> (aid \<times> number) list) list) \<times> world" where
  "score_queries rt ibs config daids [] qaid_score_dict w = (Inr qaid_score_dict, w)"
| "score_queries rt ibs config daids (qaid # qaids) qaid_score_dict w =
     (if use_knn config then
        (case tbd_predict_light rt ibs qaid daids (config_path config) w of
           (Inl e, w) \<Rightarrow> (Inl e, w)
         | (Inr tbd_name_dists, w) \<Rightarrow>
             let tbd_name_scores =
                   distance_dicts_to_name_score_dicts tbd_name_dists distance_to_score
             in (case aid_scores_from_name_scores ibs tbd_name_scores daids of
                   Inl e \<Rightarrow> (Inl e, w)
                 | Inr aid_score_list \<Rightarrow>
                     let aid_score_dict = dict_of_pairs (zip daids aid_score_list)
                     in score_queries rt ibs config daids qaids
                          (AList.update qaid aid_score_dict qaid_score_dict) w))
      else
        (case tbd_predict_light_distance rt ibs qaid daids (config_path config) w of
           (Inl e, w) \<Rightarrow> (Inl e, w)
         | (Inr tbd_annot_distances, w) \<Rightarrow>
             let aid_score_dict =
                   fold (\<lambda>(daid, tbd_annot_distance) d.
                           AList.update daid (wbia_plugin_tbd_distance_to_score tbd_annot_distance) d)
                        (zip daids tbd_annot_distances) []
             in score_queries rt ibs config daids qaids
                  (AList.update qaid aid_score_dict qaid_score_dict) w))"

text \<open>
  The second loop: the values the generator yields, one per pair; \<open>None\<close> is Python's
  \<open>None\<close>, the answer of \<open>dict.get\<close> for a missing key.
\<close>

definition yield_scores ::
  "(aid \<times> (aid \<times> number) list) list \<Rightarrow> aid list \<Rightarrow> aid list \<Rightarrow> number option list" where
  "yield_scores qaid_score_dict qaid_list daid_list =
     map (\<lambda>(qaid, daid).
            if qaid = daid then Some (PyFloat 0)
            else let aid_score_dict =
                       (case map_of qaid_score_dict qaid of None \<Rightarrow> [] | Some d \<Rightarrow> d)
                 in map_of aid_score_dict daid)
         (zip qaid_list daid_list)"

text \<open>
  The generator, run to its end: the list of the yielded scores, or the exception of the
  first loop (then nothing is yielded), with the new state.
\<close>

definition wbia_plugin_tbd ::
  "runtime \<Rightarrow> ibs \<Rightarrow> aid list \<Rightarrow> aid list \<Rightarrow> tbd_config \<Rightarrow> world
     \<Rightarrow> (error + number option list) \<times> world" where
  "wbia_plugin_tbd rt ibs qaid_list daid_list config w =
     (let qaids = list_of_set rt qaid_list;
          daids = list_of_set rt daid_list
      in case score_queries rt ibs config daids qaids [] w of
           (Inl e, w) \<Rightarrow> (Inl e, w)
         | (Inr qaid_score_dict, w) \<Rightarrow>
             (Inr (yield_scores qaid_score_dict qaid_list daid_list), w))"

text \<open>
  The state after the demo database's annotations 1 and 2 have been embedded from
  \<open>world_demo\<close>: annotation 2 was missing and was computed in one request.
\<close>

definition world_demo' :: world where
  "world_demo' = \<lparr> GLOBAL_EMBEDDING_CACHE = [1 \<mapsto> [1, 1], 2 \<mapsto> [2, 1]], computations = [[2]] \<rparr>"

section \<open>Properties of the distance to score conversions\<close>

lemma distance_to_score_formula: "distance_to_score d = NpFloat ((2 - d) / 2)"
  by (simp add: distance_to_score_def)

lemma nested_distance_to_score_formula: "wbia_plugin_tbd_distance_to_score d = NpFloat (1 - d)"
  by (simp add: wbia_plugin_tbd_distance_to_score_def)

text \<open>
  C1 (as stated, refuted): the claim asks that every conversion of the scoring pipeline,
  the one used when \<open>use_knn\<close> is false included, maps a cosine distance \<open>d\<close> to
  \<open>(2 - d) / 2\<close> with score 0 at distance 2. The nested conversion gives \<open>-1\<close> at
  distance 2.
\<close>

theorem C1_nested_conversion_counterexample:
  "wbia_plugin_tbd_distance_to_score 2 = NpFloat (- 1)
   \<and> wbia_plugin_tbd_distance_to_score 2 \<noteq> NpFloat ((2 - 2) / 2)
   \<and> wbia_plugin_tbd_distance_to_score 2 \<noteq> distance_to_score 2"
  by (simp add: wbia_plugin_tbd_distance_to_score_def distance_to_score_def)

text \<open>
  C1 (amended): the module-level \<open>distance_to_score\<close>, the conversion of name scoring,
  maps every distance \<open>d\<close> to the numpy float \<open>(2 - d) / 2\<close>; it is monotonically
  non-increasing, with score 1 at distance 0 and score 0 at distance 2. The conversion
  nested in \<open>wbia_plugin_tbd\<close> (used when \<open>use_knn\<close> is false) maps \<open>d\<close> to
  \<open>1 - d\<close>: it is monotonically non-increasing too, with score 1 at distance 0, and
  its score at distance 2 is \<open>-1\<close>.
\<close>

theorem C1_distance_to_score:
  "(\<forall>d. distance_to_score d = NpFloat ((2 - d) / 2))
   \<and> (\<forall>d1 d2. d1 \<le> d2 \<longrightarrow>
         np_value (distance_to_score d2) \<le> np_value (distance_to_score d1))
   \<and> distance_to_score 0 = NpFloat 1
   \<and> distance_to_score 2 = NpFloat 0
   \<and> (\<forall>d. 0 \<le> d \<and> d \<le> 2 \<longrightarrow>
         0 \<le> np_value (distance_to_score d) \<and> np_value (distance_to_score d) \<le> 1)
   \<and> (\<forall>d. wbia_plugin_tbd_distance_to_score d = NpFloat (1 - d))
   \<and> (\<forall>d1 d2. d1 \<le> d2 \<longrightarrow>
         np_value (wbia_plugin_tbd_distance_to_score d2)
           \<le> np_value (wbia_plugin_tbd_distance_to_score d1))
   \<and> wbia_plugin_tbd_distance_to_score 0 = NpFloat 1
   \<and> wbia_plugin_tbd_distance_to_score 2 = NpFloat (- 1)"
  by (simp add: distance_to_score_def wbia_plugin_tbd_distance_to_score_def)

theorem C1_distance_to_score_witness:
  "(1 / 2 :: real) \<le> 3 / 2
   \<and> distance_to_score (1 / 2) = NpFloat (3 / 4)
   \<and> distance_to_score (3 / 2) = NpFloat (1 / 4)
   \<and> np_value (distance_to_score (3 / 2)) \<le> np_value (distance_to_score (1 / 2))
   \<and> np_value (wbia_plugin_tbd_distance_to_score (3 / 2))
        \<le> np_value (wbia_plugin_tbd_distance_to_score (1 / 2))"
proof -
  have h: "(1 / 2 :: real) \<le> 3 / 2" by simp
  have f: "distance_to_score (1 / 2) = NpFloat (3 / 4)"
    "distance_to_score (3 / 2) = NpFloat (1 / 4)"
    using C1_distance_to_score by simp_all
  from C1_distance_to_score h
  have "np_value (distance_to_score (3 / 2)) \<le> np_value (distance_to_score (1 / 2))"
    "np_value (wbia_plugin_tbd_distance_to_score (3 / 2))
        \<le> np_value (wbia_plugin_tbd_distance_to_score (1 / 2))"
    by blast+
  with h f show ?thesis by simp
qed

section \<open>Properties of the annotation scores\<close>

lemma collect_map_Inr:
  "(\<And>x. x \<in> set xs \<Longrightarrow> f x = Inr (g x)) \<Longrightarrow> collect (map f xs) = Inr (map g xs)"
  by (induction xs) auto

lemma collect_map_Inl:
  "x \<in> set xs \<Longrightarrow> f x = Inl e \<Longrightarrow> (\<And>y e'. y \<in> set xs \<Longrightarrow> f y = Inl e' \<Longrightarrow> e' = e)
   \<Longrightarrow> collect (map f xs) = Inl e"
proof (induction xs)
  case Nil
  then show ?case by simp
next
  case (Cons a xs)
  show ?case
  proof (cases "f a")
    case (Inl e')
    with Cons.prems(3)[of a e'] show ?thesis by simp
  next
    case (Inr y)
    with Cons.prems have "x \<in> set xs" by auto
    from Cons.IH[OF this Cons.prems(2)] Cons.prems(3) have "collect (map f xs) = Inl e" by auto
    with Inr show ?thesis by simp
  qed
qed

lemma map_of_Some_key: "map_of d name = Some s \<Longrightarrow> name \<in> set (dict_keys d)"
  unfolding dict_keys_def by (force dest: map_of_SomeD)

lemma getitem_key: "name \<in> set (dict_keys d) \<Longrightarrow> \<exists>s. map_of d name = Some s \<and> getitem d name = Inr s"
  unfolding dict_keys_def getitem_def
  by (cases "map_of d name") (auto simp: map_of_eq_None_iff)

lemma getitem_count:
  "name \<in> set ks \<Longrightarrow> getitem (map (\<lambda>name. (name, c name)) ks) name = Inr (c name)"
  by (simp add: getitem_def map_of_map_restrict)

lemma truediv_pos: "0 < k \<Longrightarrow> \<exists>q. truediv s k = Inr q"
  by (cases s) auto

lemma truediv_Inl: "truediv s k = Inl e \<Longrightarrow> e = ZeroDivisionError \<and> k = 0 \<and> (\<exists>r. s = PyFloat r)"
  by (cases s) (auto split: if_splits)

lemma truediv_np: "(\<forall>r. s \<noteq> PyFloat r) \<Longrightarrow> \<exists>q. truediv s k = Inr q"
  by (cases s) auto

lemma orphan_python_key_iff:
  "orphan_python_key labels d \<longleftrightarrow>
     (\<exists>name r. map_of d name = Some (PyFloat r) \<and> count_list labels name = 0)"
proof
  assume "orphan_python_key labels d"
  then obtain name where n: "name \<in> set (dict_keys d)" "count_list labels name = 0"
    "(case map_of d name of Some (PyFloat s) \<Rightarrow> True | _ \<Rightarrow> False)"
    by (auto simp: orphan_python_key_def list_ex_iff)
  from n(3) obtain r where "map_of d name = Some (PyFloat r)"
    by (auto split: option.splits number.splits)
  with n(2) show "\<exists>name r. map_of d name = Some (PyFloat r) \<and> count_list labels name = 0"
    by blast
next
  assume "\<exists>name r. map_of d name = Some (PyFloat r) \<and> count_list labels name = 0"
  then obtain name r where n: "map_of d name = Some (PyFloat r)" "count_list labels name = 0"
    by blast
  from n(1) have "name \<in> set (dict_keys d)"
    by (rule map_of_Some_key)
  with n show "orphan_python_key labels d"
    by (auto simp: orphan_python_key_def list_ex_iff)
qed

lemma aid_scores_returns:
  assumes "\<not> orphan_python_key (db_labels_for_tbd ibs daid_list) d"
  shows "aid_scores_from_name_scores ibs d daid_list =
           Inr (map (annotwise (db_labels_for_tbd ibs daid_list) d) (db_labels_for_tbd ibs daid_list))"
proof -
  let ?labels = "db_labels_for_tbd ibs daid_list"
  let ?counts = "map (\<lambda>name. (name, count_list ?labels name)) (dict_keys d)"
  let ?step = "\<lambda>name. case getitem d name of
                          Inl e \<Rightarrow> Inl e
                        | Inr s \<Rightarrow>
                            (case getitem ?counts name of
                               Inl e \<Rightarrow> Inl e
                             | Inr k \<Rightarrow>
                                 (case truediv s k of
                                    Inl e \<Rightarrow> Inl e
                                  | Inr q \<Rightarrow> Inr (name, q)))"
  let ?g = "\<lambda>name. (name, annotwise ?labels d name)"
  have step: "?step name = Inr (?g name)" if "name \<in> set (dict_keys d)" for name
  proof -
    from getitem_key[OF that] obtain s where s: "map_of d name = Some s" "getitem d name = Inr s"
      by blast
    have c: "getitem ?counts name = Inr (count_list ?labels name)"
      using that by (rule getitem_count)
    have "\<exists>q. truediv s (count_list ?labels name) = Inr q"
    proof (cases "count_list ?labels name = 0")
      case True
      with assms s(1) have "\<forall>r. s \<noteq> PyFloat r"
        by (auto simp: orphan_python_key_iff)
      then show ?thesis by (rule truediv_np)
    next
      case False
      then show ?thesis by (simp add: truediv_pos)
    qed
    then obtain q where q: "truediv s (count_list ?labels name) = Inr q" by blast
    with s c show ?thesis by (simp add: annotwise_def quot_def)
  qed
  have "collect (map ?step (dict_keys d)) = Inr (map ?g (dict_keys d))"
    by (rule collect_map_Inr) (rule step)
  moreover have "defaultdict_float_getitem (map ?g (dict_keys d)) name = annotwise ?labels d name"
    for name
  proof (cases "map_of d name")
    case None
    then have "name \<notin> set (dict_keys d)"
      by (simp add: dict_keys_def map_of_eq_None_iff)
    with None show ?thesis
      by (simp add: defaultdict_float_getitem_def map_of_map_restrict annotwise_def)
  next
    case (Some s)
    then have "name \<in> set (dict_keys d)"
      by (rule map_of_Some_key)
    then show ?thesis
      by (simp add: defaultdict_float_getitem_def map_of_map_restrict)
  qed
  ultimately show ?thesis
    by (simp add: aid_scores_from_name_scores_def Let_def)
qed

lemma aid_scores_raises:
  assumes "orphan_python_key (db_labels_for_tbd ibs daid_list) d"
  shows "aid_scores_from_name_scores ibs d daid_list = Inl ZeroDivisionError"
proof -
  let ?labels = "db_labels_for_tbd ibs daid_list"
  let ?counts = "map (\<lambda>name. (name, count_list ?labels name)) (dict_keys d)"
  let ?step = "\<lambda>name. case getitem d name of
                          Inl e \<Rightarrow> Inl e
                        | Inr s \<Rightarrow>
                            (case getitem ?counts name of
                               Inl e \<Rightarrow> Inl e
                             | Inr k \<Rightarrow>
                                 (case truediv s k of
                                    Inl e \<Rightarrow> Inl e
                                  | Inr q \<Rightarrow> Inr (name, q)))"
  have step: "?step name = (case truediv s (count_list ?labels name) of
                              Inl e \<Rightarrow> Inl e | Inr q \<Rightarrow> Inr (name, q))"
    if "map_of d name = Some s" for name s
  proof -
    from that have k: "name \<in> set (dict_keys d)"
      by (rule map_of_Some_key)
    from that have "getitem d name = Inr s" by (simp add: getitem_def)
    moreover have "getitem ?counts name = Inr (count_list ?labels name)"
      using k by (rule getitem_count)
    ultimately show ?thesis by simp
  qed
  from assms obtain name r where n: "map_of d name = Some (PyFloat r)"
    "count_list ?labels name = 0"
    by (auto simp: orphan_python_key_iff)
  from n(1) have k: "name \<in> set (dict_keys d)"
    by (rule map_of_Some_key)
  have bad: "?step name = Inl ZeroDivisionError"
    using step[OF n(1)] n(2) by simp
  have only: "e' = ZeroDivisionError" if "y \<in> set (dict_keys d)" "?step y = Inl e'" for y e'
  proof -
    from getitem_key[OF that(1)] obtain s where s: "map_of d y = Some s" by blast
    from that(2) step[OF s] have "\<exists>e. truediv s (count_list ?labels y) = Inl e' "
      by (auto split: sum.splits)
    then show ?thesis by (auto dest: truediv_Inl)
  qed
  have "collect (map ?step (dict_keys d)) = Inl ZeroDivisionError"
    using k bad only by (rule collect_map_Inl)
  then show ?thesis
    by (simp add: aid_scores_from_name_scores_def Let_def)
qed

lemma length_db_labels_for_tbd [simp]:
  "length (db_labels_for_tbd ibs daid_list) = length daid_list"
  by (simp add: db_labels_for_tbd_def)


lemma truediv_finite:
  "0 < k \<Longrightarrow> truediv (NpFloat s) k = Inr (NpFloat (s / real k))"
  "0 < k \<Longrightarrow> truediv (PyFloat s) k = Inr (PyFloat (s / real k))"
  by simp_all






text \<open>
  C10 (amended): \<open>aid_scores_from_name_scores\<close> raises \<open>ZeroDivisionError\<close> exactly
  when some key of the name-score mapping holds a plain Python number and labels zero
  database annotations; in every other case it returns one score per database annotation.
  In particular a mapping of numpy scores (what \<open>distance_to_score\<close> produces) never
  makes it raise: numpy divides by the zero count without an exception.
\<close>

theorem C10_zero_count_division:
  "(aid_scores_from_name_scores ibs name_score_dict daid_list = Inl ZeroDivisionError
      \<longleftrightarrow> orphan_python_key (db_labels_for_tbd ibs daid_list) name_score_dict)
   \<and> ((\<exists>daid_scores. aid_scores_from_name_scores ibs name_score_dict daid_list = Inr daid_scores
                       \<and> length daid_scores = length daid_list)
      \<longleftrightarrow> \<not> orphan_python_key (db_labels_for_tbd ibs daid_list) name_score_dict)
   \<and> ((\<forall>name s. map_of name_score_dict name = Some s \<longrightarrow> \<not> is_PyFloat s) \<longrightarrow>
        (\<exists>daid_scores. aid_scores_from_name_scores ibs name_score_dict daid_list = Inr daid_scores))
   \<and> (orphan_python_key (db_labels_for_tbd ibs daid_list) name_score_dict
      \<longleftrightarrow> (\<exists>name r. map_of name_score_dict name = Some (PyFloat r)
                     \<and> count_list (db_labels_for_tbd ibs daid_list) name = 0))"
proof -
  let ?labels = "db_labels_for_tbd ibs daid_list"
  let ?r = "aid_scores_from_name_scores ibs name_score_dict daid_list"
  have a: "?r = Inl ZeroDivisionError" if "orphan_python_key ?labels name_score_dict"
    using that by (rule aid_scores_raises)
  have b: "?r = Inr (map (annotwise ?labels name_score_dict) ?labels)"
    if "\<not> orphan_python_key ?labels name_score_dict"
    using that by (rule aid_scores_returns)
  have 1: "?r = Inl ZeroDivisionError \<longleftrightarrow> orphan_python_key ?labels name_score_dict"
    using a b by (cases "orphan_python_key ?labels name_score_dict") auto
  have 2: "(\<exists>daid_scores. ?r = Inr daid_scores \<and> length daid_scores = length daid_list)
      \<longleftrightarrow> \<not> orphan_python_key ?labels name_score_dict"
    using a b by (cases "orphan_python_key ?labels name_score_dict") auto
  have 3: "\<exists>daid_scores. ?r = Inr daid_scores"
    if "\<forall>name s. map_of name_score_dict name = Some s \<longrightarrow> \<not> is_PyFloat s"
  proof -
    from that have "\<not> orphan_python_key ?labels name_score_dict"
      unfolding orphan_python_key_iff by (metis number.disc(1))
    from b[OF this] show ?thesis by blast
  qed
  from 1 2 3 orphan_python_key_iff[of ?labels name_score_dict] show ?thesis by blast
qed

text \<open>
  C10, witness: a numpy score whose key labels no annotation of the database list, and
  Python scores of which one (\<open>b\<close>) labels no annotation of the database list.
\<close>

theorem C10_zero_count_division_witness:
  "distance_dicts_to_name_score_dicts [\<lparr>label = ''a'', distance = 0\<rparr>] distance_to_score
     = [(''a'', NpFloat 1)]
   \<and> \<not> is_PyFloat (NpFloat 1)
   \<and> aid_scores_from_name_scores ibs_demo
        (distance_dicts_to_name_score_dicts [\<lparr>label = ''a'', distance = 0\<rparr>] distance_to_score) [3]
       \<noteq> Inl ZeroDivisionError
   \<and> orphan_python_key (db_labels_for_tbd ibs_demo [1, 2]) [(''a'', PyFloat 1), (''b'', PyFloat 1)]
   \<and> aid_scores_from_name_scores ibs_demo [(''a'', PyFloat 1), (''b'', PyFloat 1)] [1, 2]
       = Inl ZeroDivisionError"
proof -
  let ?d = "distance_dicts_to_name_score_dicts [\<lparr>label = ''a'', distance = 0\<rparr>] distance_to_score"
  have d: "?d = [(''a'', NpFloat 1)]"
    by (simp add: distance_dicts_to_name_score_dicts_def distance_to_score_def)
  have h: "\<forall>name s. map_of ?d name = Some s \<longrightarrow> \<not> is_PyFloat s"
    by (simp add: d)
  with C10_zero_count_division[of ibs_demo ?d "[3]"]
  obtain daid_scores where "aid_scores_from_name_scores ibs_demo ?d [3] = Inr daid_scores"
    by blast
  then have n: "aid_scores_from_name_scores ibs_demo ?d [3] \<noteq> Inl ZeroDivisionError"
    by simp
  have o: "orphan_python_key (db_labels_for_tbd ibs_demo [1, 2]) [(''a'', PyFloat 1), (''b'', PyFloat 1)]"
    by (simp add: orphan_python_key_def dict_keys_def db_labels_for_tbd_def ibs_demo_def
        UNKNOWN_def)
  with C10_zero_count_division[of ibs_demo "[(''a'', PyFloat 1), (''b'', PyFloat 1)]" "[1, 2]"]
  have "aid_scores_from_name_scores ibs_demo [(''a'', PyFloat 1), (''b'', PyFloat 1)] [1, 2]
       = Inl ZeroDivisionError"
    by blast
  with d n o show ?thesis by simp
qed

text \<open>
  C10 (as stated, refuted): the claim says that a key labelling zero database annotations
  makes the operation fail with a division-by-zero error. The name scores built by
  \<open>distance_dicts_to_name_score_dicts\<close> with \<open>distance_to_score\<close> are numpy floats:
  with the key \<open>a\<close> and the database list \<open>[3]\<close> (named \<open>b\<close>) the count of
  \<open>a\<close> is zero, the quotient is \<open>inf\<close>, and the operation returns \<open>[0.0]\<close>.
\<close>

theorem C10_numpy_score_counterexample:
  "distance_dicts_to_name_score_dicts [\<lparr>label = ''a'', distance = 0\<rparr>] distance_to_score
     = [(''a'', NpFloat 1)]
   \<and> count_list (db_labels_for_tbd ibs_demo [3]) ''a'' = 0
   \<and> truediv (NpFloat 1) 0 = Inr NpInf
   \<and> aid_scores_from_name_scores ibs_demo
        (distance_dicts_to_name_score_dicts [\<lparr>label = ''a'', distance = 0\<rparr>] distance_to_score) [3]
       = Inr [PyFloat 0]"
  by (simp add: aid_scores_from_name_scores_def db_labels_for_tbd_def ibs_demo_def UNKNOWN_def
      dict_keys_def getitem_def defaultdict_float_getitem_def
      distance_dicts_to_name_score_dicts_def distance_to_score_def)

section \<open>Properties of GeM pooling\<close>

lemma concat_map_map: "concat (map (map f) m) = map f (concat m)"
  by (induction m) auto

lemma gem_refines_formula:
  assumes "\<not> list_ex (list_ex (\<lambda>m. concat m = [])) x"
  shows "gem x p eps = Inr (map (map (\<lambda>m. [[gem_formula p eps m]])) x)"
  using assms
  by (simp add: gem_def avg_pool2d_def pow_def clamp_min_def map4_def gem_formula_def
      list_ex_iff concat_map_map comp_def)







section \<open>Properties of the embedding model\<close>

lemma MiewIdNet_init_demo: "MiewIdNet_init torch_demo params_demo = Inr net_demo"
  by (simp add: MiewIdNet_init_def torch_demo_def params_demo_def net_demo_def)

lemma gem_formula_single:
  assumes "0 < eps" "p \<noteq> 0"
  shows "gem_formula p eps [[v]] = max v eps"
proof -
  have "0 < max v eps" using assms by simp
  then have "(max v eps powr p) powr (1 / p) = max v eps"
    using assms by (simp add: powr_powr)
  then show ?thesis by (simp add: gem_formula_def)
qed

lemma gem_single_maps:
  assumes "0 < eps" "p \<noteq> 0"
  shows "gem [[[[a]], [[b]]]] p eps = Inr [[[[max a eps]], [[max b eps]]]]"
  using assms by (simp add: gem_refines_formula gem_formula_single)

lemma pooled_demo: "GeM_forward GeM_default [[[[1]], [[3]]]] = Inr [[[[1]], [[3]]]]"
  by (simp add: GeM_forward_def GeM_default_def GeM_init_def gem_single_maps)

lemma view_demo: "view [[[[1]], [[3]]]] (Suc 0) = Inr [[1, 3]]"
  by (simp add: view_def)

lemma extract_feat_demo: "extract_feat (eval_mode net_demo) [[[[1]], [[3]]]] = Inr [[1, 3]]"
  by (simp add: extract_feat_def eval_mode_def net_demo_def pooled_demo view_demo torch_demo_def)

lemma extract_feat_without_fc:
  "extract_feat self x = Inr y \<Longrightarrow> extract_feat (self\<lparr>use_fc := False\<rparr>) x = Inr y"
  by (auto simp: extract_feat_def Let_def split: sum.splits if_splits option.splits)

lemma extract_feat_final: "extract_feat (self\<lparr>final := f\<rparr>) x = extract_feat self x"
  by (simp add: extract_feat_def cong: sum.case_cong option.case_cong if_cong)

lemma extract_feat_demo_train: "extract_feat net_demo [[[[1]], [[3]]]] = Inr [[1, 3]]"
  by (simp add: extract_feat_def net_demo_def pooled_demo view_demo torch_demo_def)

lemma extract_feat_narrow_bn:
  "extract_feat
     (eval_mode (net_demo\<lparr>bn := nn_BatchNorm1d torch_demo 1,
                    final := FinalElasticArcFace (heads_ElasticArcFace torch_demo 1 3 30 (1 / 2))\<rparr>))
     [[[[1]], [[3]]]]
     = Inl RuntimeError"
  by (simp add: extract_feat_def eval_mode_def net_demo_def pooled_demo view_demo torch_demo_def)

text \<open>
  C2 (the code departs from the claim): the model built with \<open>use_fc\<close>, put in
  inference mode and run on one sample with the two 1 x 1 channel maps 1 and 3. The
  claim expects the projected, reduced vector. \<open>extract_feat\<close> returns \<open>[[1, 3]]\<close>,
  the output of the batch normalisation after pooling, which is also what the same model
  returns with \<open>use_fc\<close> off; the projection \<open>x1\<close> (here \<open>[[4, 4, 4]]\<close>, as wide as
  \<open>n_classes\<close>) is computed and dropped. With \<open>fc_dim = 1\<close>, different from the
  backbone's width 2, the only batch normalisation layer is built for width 1 and the
  call raises.
\<close>

theorem C2_extract_feat_returns_unprojected:
  "MiewIdNet_init torch_demo params_demo = Inr net_demo
   \<and> use_fc net_demo
   \<and> extract_feat (eval_mode net_demo) [[[[1]], [[3]]]] = Inr [[1, 3]]
   \<and> extract_feat ((eval_mode net_demo)\<lparr>use_fc := False\<rparr>) [[[[1]], [[3]]]] = Inr [[1, 3]]
   \<and> nn_Linear torch_demo 2 3 False False [[1, 3]] = Inr [[4, 4, 4]]
   \<and> MiewIdNet_init torch_demo (params_demo\<lparr>cfg_fc_dim := 1\<rparr>)
       = Inr (net_demo\<lparr>bn := nn_BatchNorm1d torch_demo 1,
                        final := FinalElasticArcFace (heads_ElasticArcFace torch_demo 1 3 30 (1 / 2))\<rparr>)
   \<and> extract_feat
         (eval_mode (net_demo\<lparr>bn := nn_BatchNorm1d torch_demo 1,
                        final := FinalElasticArcFace (heads_ElasticArcFace torch_demo 1 3 30 (1 / 2))\<rparr>))
         [[[[1]], [[3]]]]
       = Inl RuntimeError"
proof -
  have a: "extract_feat ((eval_mode net_demo)\<lparr>use_fc := False\<rparr>) [[[[1]], [[3]]]] = Inr [[1, 3]]"
    using extract_feat_demo by (rule extract_feat_without_fc)
  have b: "nn_Linear torch_demo 2 3 False False [[1, 3]] = Inr [[4, 4, 4]]"
    by (simp add: torch_demo_def numeral_3_eq_3)
  have c: "MiewIdNet_init torch_demo (params_demo\<lparr>cfg_fc_dim := 1\<rparr>)
       = Inr (net_demo\<lparr>bn := nn_BatchNorm1d torch_demo 1,
                        final := FinalElasticArcFace (heads_ElasticArcFace torch_demo 1 3 30 (1 / 2))\<rparr>)"
    by (simp add: MiewIdNet_init_def torch_demo_def params_demo_def net_demo_def)
  have d: "extract_feat
         (eval_mode (net_demo\<lparr>bn := nn_BatchNorm1d torch_demo 1,
                        final := FinalElasticArcFace (heads_ElasticArcFace torch_demo 1 3 30 (1 / 2))\<rparr>))
         [[[[1]], [[3]]]]
       = Inl RuntimeError"
    by (rule extract_feat_narrow_bn)
  have e: "use_fc net_demo" by (simp add: net_demo_def)
  from MiewIdNet_init_demo e extract_feat_demo a b c d show ?thesis by blast
qed

text \<open>
  C6: in training mode, \<open>forward\<close> called without a label never returns a result. Once
  the feature extraction has returned, the failure is the \<open>AssertionError\<close> of
  \<open>assert label is not None\<close>, and it comes before the loss head is called: the outcome
  is the same whatever \<open>self.final\<close> is. In inference mode the label plays no part:
  \<open>forward\<close> returns what \<open>extract_feat\<close> returns, for every label argument.
\<close>

theorem C6_forward_training_requires_label:
  "(training self \<longrightarrow>
       (\<exists>e. forward self x None = Inl e)
     \<and> (\<forall>feature. extract_feat self x = Inr feature \<longrightarrow>
           forward self x None = Inl AssertionError)
     \<and> (\<forall>f. forward (self\<lparr>final := f\<rparr>) x None = forward self x None))
   \<and> (\<not> training self \<longrightarrow> forward self x lab = extract_feat self x)"
proof (intro conjI impI allI)
  assume t: "training self"
  show "\<exists>e. forward self x None = Inl e"
    using t by (cases "extract_feat self x") (simp_all add: forward_def)
  show "forward self x None = Inl AssertionError" if "extract_feat self x = Inr feature" for feature
    using t that by (simp add: forward_def)
  show "forward (self\<lparr>final := f\<rparr>) x None = forward self x None" for f
    using t by (cases "extract_feat self x") (simp_all add: forward_def extract_feat_final)
next
  assume "\<not> training self"
  then show "forward self x lab = extract_feat self x"
    by (cases "extract_feat self x") (simp_all add: forward_def)
qed

text \<open>
  C6, witness: the demo model, in training mode as built and then in inference mode.
\<close>

theorem C6_forward_training_requires_label_witness:
  "training net_demo
   \<and> extract_feat net_demo [[[[1]], [[3]]]] = Inr [[1, 3]]
   \<and> forward net_demo [[[[1]], [[3]]]] None = Inl AssertionError
   \<and> forward net_demo [[[[1]], [[3]]]] (Some [0]) = Inr [[0, 0, 0]]
   \<and> \<not> training (eval_mode net_demo)
   \<and> forward (eval_mode net_demo) [[[[1]], [[3]]]] None = Inr [[1, 3]]"
proof -
  have t: "training net_demo" by (simp add: net_demo_def)
  have n: "\<not> training (eval_mode net_demo)" by (simp add: eval_mode_def)
  from C6_forward_training_requires_label[of net_demo "[[[[1]], [[3]]]]"] t extract_feat_demo_train
  have a: "forward net_demo [[[[1]], [[3]]]] None = Inl AssertionError" by blast
  from C6_forward_training_requires_label[of "eval_mode net_demo" "[[[[1]], [[3]]]]" None] n
    extract_feat_demo
  have b: "forward (eval_mode net_demo) [[[[1]], [[3]]]] None = Inr [[1, 3]]" by simp
  have c: "forward net_demo [[[[1]], [[3]]]] (Some [0]) = Inr [[0, 0, 0]]"
    by (simp add: forward_def extract_feat_demo_train)
       (simp add: net_demo_def call_final2_def torch_demo_def numeral_3_eq_3)
  from t n a b c extract_feat_demo_train show ?thesis by blast
qed

section \<open>Properties of the training setup\<close>

lemma run_build_model_mismatch:
  assumes "cfg_n_classes (config_model_params config) \<noteq> nunique names"
  shows "run_build_model lib config names out =
           (MiewIdNet_init lib ((config_model_params config)\<lparr>cfg_n_classes := nunique names\<rparr>),
            config\<lparr>config_model_params :=
                     (config_model_params config)\<lparr>cfg_n_classes := nunique names\<rparr>\<rparr>,
            out @ [WARNING_Overriding_n_classes
                     (cfg_n_classes (config_model_params config)) (nunique names)])"
  using assms by (simp add: run_build_model_def Let_def)

lemma run_build_model_match:
  assumes "cfg_n_classes (config_model_params config) = nunique names"
  shows "run_build_model lib config names out =
           (MiewIdNet_init lib (config_model_params config), config, out)"
  using assms by (simp add: run_build_model_def Let_def)

text \<open>
  C8: when the configured class count differs from the number of distinct identities of
  the training data, the setup prints the warning (and nothing else), sets the
  configuration's class count to the observed count, leaves every other model parameter
  as it was, and builds the model from the overridden parameters. The mismatch raises
  nothing: the outcome of the construction is the one a configuration that held the
  observed count from the start gets.
\<close>

theorem C8_n_classes_override:
  "cfg_n_classes (config_model_params config) \<noteq> nunique names \<longrightarrow>
     (case run_build_model lib config names out of
        (model, config', out') \<Rightarrow>
          out' = out @ [WARNING_Overriding_n_classes
                          (cfg_n_classes (config_model_params config)) (nunique names)]
        \<and> cfg_n_classes (config_model_params config') = nunique names
        \<and> config_model_params config'
            = (config_model_params config)\<lparr>cfg_n_classes := nunique names\<rparr>
        \<and> model = MiewIdNet_init lib (config_model_params config')
        \<and> model = fst (run_build_model lib config' names out))"
proof
  assume h: "cfg_n_classes (config_model_params config) \<noteq> nunique names"
  let ?c = "config\<lparr>config_model_params :=
                     (config_model_params config)\<lparr>cfg_n_classes := nunique names\<rparr>\<rparr>"
  have "cfg_n_classes (config_model_params ?c) = nunique names" by simp
  then have "run_build_model lib ?c names out
               = (MiewIdNet_init lib (config_model_params ?c), ?c, out)"
    by (rule run_build_model_match)
  with run_build_model_mismatch[OF h, of lib out]
  show "case run_build_model lib config names out of
        (model, config', out') \<Rightarrow>
          out' = out @ [WARNING_Overriding_n_classes
                          (cfg_n_classes (config_model_params config)) (nunique names)]
        \<and> cfg_n_classes (config_model_params config') = nunique names
        \<and> config_model_params config'
            = (config_model_params config)\<lparr>cfg_n_classes := nunique names\<rparr>
        \<and> model = MiewIdNet_init lib (config_model_params config')
        \<and> model = fst (run_build_model lib config' names out)"
    by simp
qed

text \<open>
  C8, witness: the configuration asks for 5 classes and the training column
  \<open>[7, 8, 7, 9]\<close> holds 3 identities; the model built is the demo model, whose layers
  are sized for 3 classes.
\<close>

theorem C8_n_classes_override_witness:
  "cfg_n_classes (config_model_params \<lparr>config_model_params = params_demo\<lparr>cfg_n_classes := 5\<rparr>\<rparr>)
     \<noteq> nunique [7, 8, 7, 9 :: nat]
   \<and> run_build_model torch_demo \<lparr>config_model_params = params_demo\<lparr>cfg_n_classes := 5\<rparr>\<rparr>
        [7, 8, 7, 9] []
       = (Inr net_demo, \<lparr>config_model_params = params_demo\<rparr>,
          [WARNING_Overriding_n_classes 5 3])"
proof -
  let ?config = "\<lparr>config_model_params = params_demo\<lparr>cfg_n_classes := 5\<rparr>\<rparr>"
  have n: "nunique [7, 8, 7, 9 :: nat] = 3" by (simp add: nunique_def)
  have h: "cfg_n_classes (config_model_params ?config) \<noteq> nunique [7, 8, 7, 9 :: nat]"
    by (simp add: n)
  have p: "params_demo\<lparr>cfg_n_classes := 3\<rparr> = params_demo" by (simp add: params_demo_def)
  obtain model config' out' where
    r: "run_build_model torch_demo ?config [7, 8, 7, 9] [] = (model, config', out')"
    by (cases "run_build_model torch_demo ?config [7, 8, 7, 9] []") auto
  from C8_n_classes_override[where config = ?config and names = "[7, 8, 7, 9]"
      and lib = torch_demo and out = "[]"] h r
  have "out' = [WARNING_Overriding_n_classes 5 3]"
    "config_model_params config' = params_demo"
    "model = MiewIdNet_init torch_demo (config_model_params config')"
    by (simp_all add: n p)
  then have "model = Inr net_demo" "config' = \<lparr>config_model_params = params_demo\<rparr>"
    "out' = [WARNING_Overriding_n_classes 5 3]"
    by (simp_all add: MiewIdNet_init_demo)
  with r h show ?thesis by simp
qed

section \<open>Properties of the embedding cache\<close>

lemma fold_cache_update:
  "fold (\<lambda>(k, v) cache. cache(k \<mapsto> v)) (zip ks vs) m = m(ks [\<mapsto>] vs)"
proof (induction ks arbitrary: vs m)
  case Nil
  then show ?case by simp
next
  case (Cons k ks)
  then show ?case by (cases vs) (simp_all del: fun_upd_apply)
qed

lemma ut_take_hit:
  assumes "set ks \<subseteq> dom d"
  shows "ut_take d ks = Inr (map (\<lambda>k. the (d k)) ks)"
  unfolding ut_take_def
proof (rule collect_map_Inr)
  fix k assume "k \<in> set ks"
  with assms obtain v where "d k = Some v" by blast
  then show "(case d k of None \<Rightarrow> Inl KeyError | Some v \<Rightarrow> Inr v) = Inr (the (d k))" by simp
qed

lemma set_dirty_aids_of:
  "set (dirty_aids_of w aid_list) = set aid_list - dom (GLOBAL_EMBEDDING_CACHE w)"
  by (auto simp: dirty_aids_of_def)

lemma dirty_aids_of_empty:
  "dirty_aids_of w aid_list = [] \<longleftrightarrow> set aid_list \<subseteq> dom (GLOBAL_EMBEDDING_CACHE w)"
  by (auto simp: dirty_aids_of_def filter_empty_conv)

lemma tbd_embedding_hit:
  assumes "set aid_list \<subseteq> dom (GLOBAL_EMBEDDING_CACHE w)"
  shows "tbd_embedding rt ibs aid_list config use_depc w
           = (Inr (map (\<lambda>aid. the (GLOBAL_EMBEDDING_CACHE w aid)) aid_list), w)"
proof -
  from assms have "dirty_aids_of w aid_list = []" by (simp add: dirty_aids_of_empty)
  with assms show ?thesis by (simp add: tbd_embedding_def ut_take_hit)
qed

lemma tbd_embedding_miss:
  assumes d: "dirty_aids_of w aid_list \<noteq> []"
    and c: "compute_dirty rt ibs (dirty_aids_of w aid_list) config use_depc = Inr es"
    and l: "length es = length (dirty_aids_of w aid_list)"
  shows "tbd_embedding rt ibs aid_list config use_depc w
           = (Inr (map (\<lambda>aid. the (((GLOBAL_EMBEDDING_CACHE w)(dirty_aids_of w aid_list [\<mapsto>] es)) aid))
                       aid_list),
              w\<lparr>computations := computations w @ [dirty_aids_of w aid_list],
                GLOBAL_EMBEDDING_CACHE :=
                  (GLOBAL_EMBEDDING_CACHE w)(dirty_aids_of w aid_list [\<mapsto>] es)\<rparr>)"
proof -
  let ?dirty = "dirty_aids_of w aid_list"
  let ?cache = "(GLOBAL_EMBEDDING_CACHE w)(?dirty [\<mapsto>] es)"
  have "dom ?cache = set ?dirty \<union> dom (GLOBAL_EMBEDDING_CACHE w)"
    using l by simp
  then have "set aid_list \<subseteq> dom ?cache"
    by (auto simp: set_dirty_aids_of)
  then have "ut_take ?cache aid_list = Inr (map (\<lambda>aid. the (?cache aid)) aid_list)"
    by (rule ut_take_hit)
  with d c show ?thesis
    by (simp add: tbd_embedding_def Let_def fold_cache_update)
qed

lemma tbd_embedding_compute_raises:
  assumes "dirty_aids_of w aid_list \<noteq> []"
    and "compute_dirty rt ibs (dirty_aids_of w aid_list) config use_depc = Inl e"
  shows "tbd_embedding rt ibs aid_list config use_depc w
           = (Inl e, w\<lparr>computations := computations w @ [dirty_aids_of w aid_list]\<rparr>)"
  using assms by (simp add: tbd_embedding_def Let_def)

lemma tbd_embedding_empty: "tbd_embedding rt ibs [] config use_depc w = (Inr [], w)"
  by (simp add: tbd_embedding_def dirty_aids_of_def ut_take_def)

lemma tbd_compute_embedding_empty: "tbd_compute_embedding rt ibs [] config = Inl IndexError"
  by (simp add: tbd_compute_embedding_def)


lemma map_upds_nth_distinct:
  assumes "distinct ks" "length vs = length ks" "j < length ks"
  shows "(m(ks [\<mapsto>] vs)) (ks ! j) = Some (vs ! j)"
  using assms
proof (induction ks arbitrary: vs m j)
  case Nil
  then show ?case by simp
next
  case (Cons k ks)
  then obtain v vs' where vs: "vs = v # vs'" by (cases vs) auto
  show ?case
  proof (cases j)
    case 0
    with Cons.prems vs show ?thesis by simp
  next
    case (Suc j')
    with Cons.prems vs have "((m(k \<mapsto> v))(ks [\<mapsto>] vs')) (ks ! j') = Some (vs' ! j')"
      by (intro Cons.IH) simp_all
    with Suc vs show ?thesis by simp
  qed
qed

text \<open>
  C5: suppose the batched computation, when there are missing ids, returns one embedding
  per missing id (the contract of the dependency cache and of \<open>tbd_compute_embedding\<close>).
  Then \<open>tbd_embedding\<close> returns one embedding per requested id, in input order, each
  the entry of the cache after the call; an id already in the cache keeps its vector and
  gets it returned; the missing ids, all of them, go into a single request, and none is
  made when nothing is missing; their embeddings are in the cache when the call returns
  (for distinct missing ids, the \<open>j\<close>-th id holds the \<open>j\<close>-th computed embedding). A
  later call for the same ids, or for any ids among them, returns the same vectors and
  leaves the whole state, the trace of computations included, as it was.
\<close>

theorem C5_tbd_embedding_cache:
  assumes "dirty_aids_of w aid_list \<noteq> [] \<longrightarrow>
             (\<exists>es. compute_dirty rt ibs (dirty_aids_of w aid_list) config use_depc = Inr es
                   \<and> length es = length (dirty_aids_of w aid_list))"
  shows "\<exists>embeddings w'.
      tbd_embedding rt ibs aid_list config use_depc w = (Inr embeddings, w')
    \<and> length embeddings = length aid_list
    \<and> (\<forall>i<length aid_list.
          GLOBAL_EMBEDDING_CACHE w' (aid_list ! i) = Some (embeddings ! i))
    \<and> (\<forall>i<length aid_list. \<forall>e.
          GLOBAL_EMBEDDING_CACHE w (aid_list ! i) = Some e \<longrightarrow> embeddings ! i = e)
    \<and> (\<forall>aid e. GLOBAL_EMBEDDING_CACHE w aid = Some e \<longrightarrow> GLOBAL_EMBEDDING_CACHE w' aid = Some e)
    \<and> set (dirty_aids_of w aid_list) = set aid_list - dom (GLOBAL_EMBEDDING_CACHE w)
    \<and> computations w' =
         computations w @ (if dirty_aids_of w aid_list = [] then [] else [dirty_aids_of w aid_list])
    \<and> dom (GLOBAL_EMBEDDING_CACHE w') = dom (GLOBAL_EMBEDDING_CACHE w) \<union> set aid_list
    \<and> (\<forall>es j. compute_dirty rt ibs (dirty_aids_of w aid_list) config use_depc = Inr es
               \<and> distinct (dirty_aids_of w aid_list) \<and> j < length (dirty_aids_of w aid_list) \<longrightarrow>
          GLOBAL_EMBEDDING_CACHE w' (dirty_aids_of w aid_list ! j) = Some (es ! j))
    \<and> (\<forall>ids config' use_depc'. set ids \<subseteq> set aid_list \<longrightarrow>
          tbd_embedding rt ibs ids config' use_depc' w'
            = (Inr (map (\<lambda>aid. the (GLOBAL_EMBEDDING_CACHE w' aid)) ids), w'))
    \<and> tbd_embedding rt ibs aid_list config use_depc w' = (Inr embeddings, w')"
proof (cases "dirty_aids_of w aid_list = []")
  case True
  let ?embs = "map (\<lambda>aid. the (GLOBAL_EMBEDDING_CACHE w aid)) aid_list"
  from True have sub: "set aid_list \<subseteq> dom (GLOBAL_EMBEDDING_CACHE w)"
    by (simp add: dirty_aids_of_empty)
  have r: "tbd_embedding rt ibs aid_list config use_depc w = (Inr ?embs, w)"
    using sub by (rule tbd_embedding_hit)
  have a: "GLOBAL_EMBEDDING_CACHE w (aid_list ! i) = Some (?embs ! i)" if "i < length aid_list" for i
    using sub that by (auto simp: subset_eq dom_def)
  have h: "tbd_embedding rt ibs ids config' use_depc' w
            = (Inr (map (\<lambda>aid. the (GLOBAL_EMBEDDING_CACHE w aid)) ids), w)"
    if "set ids \<subseteq> set aid_list" for ids config' use_depc'
    using that sub by (intro tbd_embedding_hit) blast
  have "tbd_embedding rt ibs aid_list config use_depc w = (Inr ?embs, w)
    \<and> length ?embs = length aid_list
    \<and> (\<forall>i<length aid_list. GLOBAL_EMBEDDING_CACHE w (aid_list ! i) = Some (?embs ! i))
    \<and> (\<forall>i<length aid_list. \<forall>e.
          GLOBAL_EMBEDDING_CACHE w (aid_list ! i) = Some e \<longrightarrow> ?embs ! i = e)
    \<and> (\<forall>aid e. GLOBAL_EMBEDDING_CACHE w aid = Some e \<longrightarrow> GLOBAL_EMBEDDING_CACHE w aid = Some e)
    \<and> set (dirty_aids_of w aid_list) = set aid_list - dom (GLOBAL_EMBEDDING_CACHE w)
    \<and> computations w =
         computations w @ (if dirty_aids_of w aid_list = [] then [] else [dirty_aids_of w aid_list])
    \<and> dom (GLOBAL_EMBEDDING_CACHE w) = dom (GLOBAL_EMBEDDING_CACHE w) \<union> set aid_list
    \<and> (\<forall>es j. compute_dirty rt ibs (dirty_aids_of w aid_list) config use_depc = Inr es
               \<and> distinct (dirty_aids_of w aid_list) \<and> j < length (dirty_aids_of w aid_list) \<longrightarrow>
          GLOBAL_EMBEDDING_CACHE w (dirty_aids_of w aid_list ! j) = Some (es ! j))
    \<and> (\<forall>ids config' use_depc'. set ids \<subseteq> set aid_list \<longrightarrow>
          tbd_embedding rt ibs ids config' use_depc' w
            = (Inr (map (\<lambda>aid. the (GLOBAL_EMBEDDING_CACHE w aid)) ids), w))
    \<and> tbd_embedding rt ibs aid_list config use_depc w = (Inr ?embs, w)"
  proof (intro conjI allI impI)
    show "tbd_embedding rt ibs aid_list config use_depc w = (Inr ?embs, w)" by (rule r)
    show "tbd_embedding rt ibs aid_list config use_depc w = (Inr ?embs, w)" by (rule r)
    show "length ?embs = length aid_list" by simp
    show "GLOBAL_EMBEDDING_CACHE w (aid_list ! i) = Some (?embs ! i)" if "i < length aid_list" for i
      using that by (rule a)
    show "?embs ! i = e" if "i < length aid_list" "GLOBAL_EMBEDDING_CACHE w (aid_list ! i) = Some e"
      for i e using that by simp
    show "GLOBAL_EMBEDDING_CACHE w aid = Some e" if "GLOBAL_EMBEDDING_CACHE w aid = Some e" for aid e
      by (rule that)
    show "set (dirty_aids_of w aid_list) = set aid_list - dom (GLOBAL_EMBEDDING_CACHE w)"
      by (rule set_dirty_aids_of)
    show "computations w =
         computations w @ (if dirty_aids_of w aid_list = [] then [] else [dirty_aids_of w aid_list])"
      using True by simp
    show "dom (GLOBAL_EMBEDDING_CACHE w) = dom (GLOBAL_EMBEDDING_CACHE w) \<union> set aid_list"
      using sub by blast
    show "GLOBAL_EMBEDDING_CACHE w (dirty_aids_of w aid_list ! j) = Some (es ! j)"
      if "compute_dirty rt ibs (dirty_aids_of w aid_list) config use_depc = Inr es
               \<and> distinct (dirty_aids_of w aid_list) \<and> j < length (dirty_aids_of w aid_list)"
      for es j
      using that True by simp
    show "tbd_embedding rt ibs ids config' use_depc' w
            = (Inr (map (\<lambda>aid. the (GLOBAL_EMBEDDING_CACHE w aid)) ids), w)"
      if "set ids \<subseteq> set aid_list" for ids config' use_depc'
      using that by (rule h)
  qed
  then show ?thesis
    by (intro exI[where x = "?embs"] exI[where x = w])
next
  case False
  let ?dirty = "dirty_aids_of w aid_list"
  from False assms obtain es where
    c: "compute_dirty rt ibs ?dirty config use_depc = Inr es" and l: "length es = length ?dirty"
    by blast
  let ?cache = "(GLOBAL_EMBEDDING_CACHE w)(?dirty [\<mapsto>] es)"
  let ?w = "w\<lparr>computations := computations w @ [?dirty], GLOBAL_EMBEDDING_CACHE := ?cache\<rparr>"
  let ?embs = "map (\<lambda>aid. the (?cache aid)) aid_list"
  have r: "tbd_embedding rt ibs aid_list config use_depc w = (Inr ?embs, ?w)"
    using False c l by (rule tbd_embedding_miss)
  have dom: "dom ?cache = dom (GLOBAL_EMBEDDING_CACHE w) \<union> set aid_list"
    using l by (auto simp: set_dirty_aids_of)
  have keep: "?cache aid = Some e" if "GLOBAL_EMBEDDING_CACHE w aid = Some e" for aid e
  proof -
    from that have "aid \<notin> set ?dirty" by (auto simp: set_dirty_aids_of)
    with that show ?thesis by simp
  qed
  have a: "?cache (aid_list ! i) = Some (?embs ! i)" if "i < length aid_list" for i
  proof -
    from that dom have "aid_list ! i \<in> dom ?cache" by (metis UnI2 nth_mem)
    then obtain v where "?cache (aid_list ! i) = Some v" by (auto simp only: dom_def mem_Collect_eq)
    with that show ?thesis by simp
  qed
  have b: "?embs ! i = e" if "i < length aid_list" "GLOBAL_EMBEDDING_CACHE w (aid_list ! i) = Some e"
    for i e
    using keep[OF that(2)] that(1) by simp
  have ins: "?cache (?dirty ! j) = Some (es' ! j)"
    if "compute_dirty rt ibs ?dirty config use_depc = Inr es'" "distinct ?dirty" "j < length ?dirty"
    for es' j
  proof -
    from that(1) c have "es' = es" by simp
    with that l show ?thesis by (simp add: map_upds_nth_distinct)
  qed
  have h: "tbd_embedding rt ibs ids config' use_depc' ?w
            = (Inr (map (\<lambda>aid. the (GLOBAL_EMBEDDING_CACHE ?w aid)) ids), ?w)"
    if "set ids \<subseteq> set aid_list" for ids config' use_depc'
  proof (rule tbd_embedding_hit)
    from that dom show "set ids \<subseteq> dom (GLOBAL_EMBEDDING_CACHE ?w)" by auto
  qed
  have again: "tbd_embedding rt ibs aid_list config use_depc ?w = (Inr ?embs, ?w)"
    using h[of aid_list config use_depc] by simp
  have "tbd_embedding rt ibs aid_list config use_depc w = (Inr ?embs, ?w)
    \<and> length ?embs = length aid_list
    \<and> (\<forall>i<length aid_list. GLOBAL_EMBEDDING_CACHE ?w (aid_list ! i) = Some (?embs ! i))
    \<and> (\<forall>i<length aid_list. \<forall>e.
          GLOBAL_EMBEDDING_CACHE w (aid_list ! i) = Some e \<longrightarrow> ?embs ! i = e)
    \<and> (\<forall>aid e. GLOBAL_EMBEDDING_CACHE w aid = Some e \<longrightarrow> GLOBAL_EMBEDDING_CACHE ?w aid = Some e)
    \<and> set (dirty_aids_of w aid_list) = set aid_list - dom (GLOBAL_EMBEDDING_CACHE w)
    \<and> computations ?w =
         computations w @ (if dirty_aids_of w aid_list = [] then [] else [dirty_aids_of w aid_list])
    \<and> dom (GLOBAL_EMBEDDING_CACHE ?w) = dom (GLOBAL_EMBEDDING_CACHE w) \<union> set aid_list
    \<and> (\<forall>es j. compute_dirty rt ibs (dirty_aids_of w aid_list) config use_depc = Inr es
               \<and> distinct (dirty_aids_of w aid_list) \<and> j < length (dirty_aids_of w aid_list) \<longrightarrow>
          GLOBAL_EMBEDDING_CACHE ?w (dirty_aids_of w aid_list ! j) = Some (es ! j))
    \<and> (\<forall>ids config' use_depc'. set ids \<subseteq> set aid_list \<longrightarrow>
          tbd_embedding rt ibs ids config' use_depc' ?w
            = (Inr (map (\<lambda>aid. the (GLOBAL_EMBEDDING_CACHE ?w aid)) ids), ?w))
    \<and> tbd_embedding rt ibs aid_list config use_depc ?w = (Inr ?embs, ?w)"
  proof (intro conjI allI impI)
    show "tbd_embedding rt ibs aid_list config use_depc w = (Inr ?embs, ?w)" by (rule r)
    show "length ?embs = length aid_list" by simp
    show "GLOBAL_EMBEDDING_CACHE ?w (aid_list ! i) = Some (?embs ! i)" if "i < length aid_list" for i
      using a[OF that] by simp
    show "?embs ! i = e" if "i < length aid_list" "GLOBAL_EMBEDDING_CACHE w (aid_list ! i) = Some e"
      for i e using that by (rule b)
    show "GLOBAL_EMBEDDING_CACHE ?w aid = Some e" if "GLOBAL_EMBEDDING_CACHE w aid = Some e" for aid e
      using keep[OF that] by simp
    show "set (dirty_aids_of w aid_list) = set aid_list - dom (GLOBAL_EMBEDDING_CACHE w)"
      by (rule set_dirty_aids_of)
    show "computations ?w =
         computations w @ (if dirty_aids_of w aid_list = [] then [] else [dirty_aids_of w aid_list])"
      using False by simp
    show "dom (GLOBAL_EMBEDDING_CACHE ?w) = dom (GLOBAL_EMBEDDING_CACHE w) \<union> set aid_list"
      using dom by simp
    show "GLOBAL_EMBEDDING_CACHE ?w (dirty_aids_of w aid_list ! j) = Some (es' ! j)"
      if "compute_dirty rt ibs (dirty_aids_of w aid_list) config use_depc = Inr es'
               \<and> distinct (dirty_aids_of w aid_list) \<and> j < length (dirty_aids_of w aid_list)"
      for es' j
      using ins[of es' j] that by simp
    show "tbd_embedding rt ibs ids config' use_depc' ?w
            = (Inr (map (\<lambda>aid. the (GLOBAL_EMBEDDING_CACHE ?w aid)) ids), ?w)"
      if "set ids \<subseteq> set aid_list" for ids config' use_depc'
      using that by (rule h)
    show "tbd_embedding rt ibs aid_list config use_depc ?w = (Inr ?embs, ?w)" by (rule again)
  qed
  then show ?thesis
    by (intro exI[where x = "?embs"] exI[where x = "?w"])
qed

lemma tbd_embedding_demo:
  "tbd_embedding rt_demo ibs_demo [1, 2, 3] None True world_demo
     = (Inr [[1, 1], [2, 1], [3, 1]],
        \<lparr> GLOBAL_EMBEDDING_CACHE = [1 \<mapsto> [1, 1], 2 \<mapsto> [2, 1], 3 \<mapsto> [3, 1]],
          computations = [[2, 3]] \<rparr>)"
  by (simp add: tbd_embedding_def dirty_aids_of_def world_demo_def compute_dirty_def
      ibs_demo_def ut_take_def)

text \<open>
  C5, witness: annotation 1 is cached, annotations 2 and 3 are not, and the dependency
  cache computes them in one request.
\<close>

theorem C5_tbd_embedding_cache_witness:
  "dirty_aids_of world_demo [1, 2, 3] = [2, 3]
   \<and> compute_dirty rt_demo ibs_demo [2, 3] None True = Inr [[2, 1], [3, 1]]
   \<and> tbd_embedding rt_demo ibs_demo [1, 2, 3] None True world_demo
       = (Inr [[1, 1], [2, 1], [3, 1]],
          \<lparr> GLOBAL_EMBEDDING_CACHE = [1 \<mapsto> [1, 1], 2 \<mapsto> [2, 1], 3 \<mapsto> [3, 1]],
            computations = [[2, 3]] \<rparr>)
   \<and> tbd_embedding rt_demo ibs_demo [1, 2, 3] None True
         \<lparr> GLOBAL_EMBEDDING_CACHE = [1 \<mapsto> [1, 1], 2 \<mapsto> [2, 1], 3 \<mapsto> [3, 1]],
           computations = [[2, 3]] \<rparr>
       = (Inr [[1, 1], [2, 1], [3, 1]],
          \<lparr> GLOBAL_EMBEDDING_CACHE = [1 \<mapsto> [1, 1], 2 \<mapsto> [2, 1], 3 \<mapsto> [3, 1]],
            computations = [[2, 3]] \<rparr>)"
proof -
  have d: "dirty_aids_of world_demo [1, 2, 3] = [2, 3]"
    by (simp add: dirty_aids_of_def world_demo_def)
  have c: "compute_dirty rt_demo ibs_demo [2, 3] None True = Inr [[2, 1], [3, 1]]"
    by (simp add: compute_dirty_def ibs_demo_def)
  have h: "dirty_aids_of world_demo [1, 2, 3] \<noteq> [] \<longrightarrow>
             (\<exists>es. compute_dirty rt_demo ibs_demo (dirty_aids_of world_demo [1, 2, 3]) None True
                     = Inr es
                   \<and> length es = length (dirty_aids_of world_demo [1, 2, 3]))"
    by (simp add: d c)
  from C5_tbd_embedding_cache[OF h] obtain embeddings w' where
    r: "tbd_embedding rt_demo ibs_demo [1, 2, 3] None True world_demo = (Inr embeddings, w')"
    and again: "tbd_embedding rt_demo ibs_demo [1, 2, 3] None True w' = (Inr embeddings, w')"
    by blast
  from r tbd_embedding_demo have
    "embeddings = [[1, 1], [2, 1], [3, 1]]"
    "w' = \<lparr> GLOBAL_EMBEDDING_CACHE = [1 \<mapsto> [1, 1], 2 \<mapsto> [2, 1], 3 \<mapsto> [3, 1]],
            computations = [[2, 3]] \<rparr>"
    by simp_all
  with again d c tbd_embedding_demo show ?thesis by simp
qed

text \<open>
  C7 (as stated, refuted): \<open>tbd_compute_embedding\<close> given an empty annotation list
  raises \<open>IndexError\<close>, at \<open>aid_list[0]\<close> in its first statement, where the claim
  expects an empty result.
\<close>

theorem C7_tbd_compute_embedding_counterexample:
  "tbd_compute_embedding rt_demo ibs_demo [] None = Inl IndexError
   \<and> tbd_compute_embedding rt_demo ibs_demo [] None \<noteq> Inr []"
  by (simp add: tbd_compute_embedding_def)

text \<open>
  C7 (amended): \<open>tbd_embedding\<close> given an empty annotation list returns the empty list
  of embeddings, for every configuration and both values of \<open>use_depc\<close>: it computes
  nothing and leaves the cache as it was. \<open>tbd_compute_embedding\<close> given an empty
  annotation list raises \<open>IndexError\<close>: it takes the species from the first annotation.
\<close>

theorem C7_empty_annotation_list:
  "tbd_embedding rt ibs [] config use_depc w = (Inr [], w)
   \<and> tbd_compute_embedding rt ibs [] config = Inl IndexError"
  by (simp add: tbd_embedding_empty tbd_compute_embedding_empty)

section \<open>Properties of pairwise scoring\<close>

lemma yield_scores_self:
  "length (yield_scores d qaid_list daid_list) = min (length qaid_list) (length daid_list)"
  "i < length (yield_scores d qaid_list daid_list) \<Longrightarrow> qaid_list ! i = daid_list ! i
     \<Longrightarrow> yield_scores d qaid_list daid_list ! i = Some (PyFloat 0)"
  by (simp_all add: yield_scores_def)

lemma demo_embed_db:
  "tbd_embedding rt_demo ibs_demo [1, 2] None True world_demo = (Inr [[1, 1], [2, 1]], world_demo')"
  by (simp add: tbd_embedding_def dirty_aids_of_def world_demo_def world_demo'_def
      compute_dirty_def ibs_demo_def ut_take_def)

lemma demo_embed_hit:
  "tbd_embedding rt_demo ibs_demo [1, 2] None True world_demo' = (Inr [[1, 1], [2, 1]], world_demo')"
  "tbd_embedding rt_demo ibs_demo [1] None True world_demo' = (Inr [[1, 1]], world_demo')"
  "tbd_embedding rt_demo ibs_demo [2] None True world_demo' = (Inr [[2, 1]], world_demo')"
  by (simp_all add: tbd_embedding_hit world_demo'_def)

lemma demo_pred_light:
  "pred_light rt_demo query_emb db_embs db_labels = Inr [\<lparr>label = ''a'', distance = 1 / 2\<rparr>]"
  by (simp add: rt_demo_def)

lemma demo_predict_light:
  "tbd_predict_light rt_demo ibs_demo 1 [1, 2] None world_demo
     = (Inr [\<lparr>label = ''a'', distance = 1 / 2\<rparr>], world_demo')"
  "tbd_predict_light rt_demo ibs_demo 2 [1, 2] None world_demo'
     = (Inr [\<lparr>label = ''a'', distance = 1 / 2\<rparr>], world_demo')"
  by (simp_all add: tbd_predict_light_def demo_embed_db demo_embed_hit demo_pred_light)

lemma demo_name_scores:
  "distance_dicts_to_name_score_dicts [\<lparr>label = ''a'', distance = 1 / 2\<rparr>] distance_to_score
     = [(''a'', NpFloat (3 / 4))]"
  by (simp add: distance_dicts_to_name_score_dicts_def distance_to_score_def)

lemma demo_aid_scores:
  "aid_scores_from_name_scores ibs_demo [(''a'', NpFloat (3 / 4))] [1, 2]
     = Inr [NpFloat (3 / 8), NpFloat (3 / 8)]"
  by (simp add: aid_scores_from_name_scores_def db_labels_for_tbd_def ibs_demo_def UNKNOWN_def
      dict_keys_def getitem_def defaultdict_float_getitem_def)

lemma demo_score_queries:
  "score_queries rt_demo ibs_demo \<lparr>config_path = None, use_knn = True\<rparr> [1, 2] [1, 2] [] world_demo
     = (Inr [(1, [(1, NpFloat (3 / 8)), (2, NpFloat (3 / 8))]),
             (2, [(1, NpFloat (3 / 8)), (2, NpFloat (3 / 8))])], world_demo')"
  by (simp add: demo_predict_light demo_name_scores demo_aid_scores dict_of_pairs_def)

lemma demo_wbia_plugin_tbd:
  "wbia_plugin_tbd rt_demo ibs_demo [1, 1, 2] [1, 2, 2] \<lparr>config_path = None, use_knn = True\<rparr>
     world_demo
     = (Inr [Some (PyFloat 0), Some (NpFloat (3 / 8)), Some (PyFloat 0)], world_demo')"
proof -
  have "list_of_set rt_demo [1, 1, 2] = [1, 2]" "list_of_set rt_demo [1, 2, 2] = [1, 2]"
    by (simp_all add: rt_demo_def)
  then show ?thesis
    by (simp add: wbia_plugin_tbd_def demo_score_queries yield_scores_def
        del: score_queries.simps)
qed

lemma demo_compute_distance_matrix:
  "compute_distance_matrix rt_demo query_emb db_embs = Inr [map (\<lambda>e. 1 / 4) db_embs]"
  by (simp add: rt_demo_def)

lemma demo_predict_light_distance:
  "tbd_predict_light_distance rt_demo ibs_demo 1 [1, 2] None world_demo
     = (Inr [1 / 4, 1 / 4], world_demo')"
  "tbd_predict_light_distance rt_demo ibs_demo 2 [1, 2] None world_demo'
     = (Inr [1 / 4, 1 / 4], world_demo')"
  by (simp_all add: tbd_predict_light_distance_def demo_embed_db demo_embed_hit
      demo_compute_distance_matrix)

lemma demo_score_queries_distance:
  "score_queries rt_demo ibs_demo \<lparr>config_path = None, use_knn = False\<rparr> [1, 2] [1, 2] []
     world_demo
     = (Inr [(1, [(1, NpFloat (3 / 4)), (2, NpFloat (3 / 4))]),
             (2, [(1, NpFloat (3 / 4)), (2, NpFloat (3 / 4))])], world_demo')"
  by (simp add: demo_predict_light_distance wbia_plugin_tbd_distance_to_score_def)

lemma demo_wbia_plugin_tbd_distance:
  "wbia_plugin_tbd rt_demo ibs_demo [1, 1, 2] [1, 2, 2] \<lparr>config_path = None, use_knn = False\<rparr>
     world_demo
     = (Inr [Some (PyFloat 0), Some (NpFloat (3 / 4)), Some (PyFloat 0)], world_demo')"
proof -
  have "list_of_set rt_demo [1, 1, 2] = [1, 2]" "list_of_set rt_demo [1, 2, 2] = [1, 2]"
    by (simp_all add: rt_demo_def)
  then show ?thesis
    by (simp add: wbia_plugin_tbd_def demo_score_queries_distance yield_scores_def
        del: score_queries.simps)
qed

text \<open>
  C4: whenever the pairwise scoring operation emits scores, it emits one per pair of
  \<open>zip(qaid_list, daid_list)\<close>, and the score of every pair whose query annotation is
  its database annotation is the float \<open>0.0\<close>, whatever distances were computed and
  whatever the score dictionaries hold for that annotation.
\<close>

theorem C4_self_match_score:
  "wbia_plugin_tbd rt ibs qaid_list daid_list config w = (Inr daid_scores, w') \<longrightarrow>
     length daid_scores = min (length qaid_list) (length daid_list)
     \<and> (\<forall>i<length daid_scores.
           qaid_list ! i = daid_list ! i \<longrightarrow> daid_scores ! i = Some (PyFloat 0))"
proof
  assume r: "wbia_plugin_tbd rt ibs qaid_list daid_list config w = (Inr daid_scores, w')"
  then obtain d where "daid_scores = yield_scores d qaid_list daid_list"
    by (auto simp: wbia_plugin_tbd_def Let_def split: prod.splits sum.splits)
  then show "length daid_scores = min (length qaid_list) (length daid_list)
     \<and> (\<forall>i<length daid_scores.
           qaid_list ! i = daid_list ! i \<longrightarrow> daid_scores ! i = Some (PyFloat 0))"
    using yield_scores_self[where d = d and qaid_list = qaid_list and daid_list = daid_list]
    by blast
qed

text \<open>
  C4, witness: the pairs (1, 1), (1, 2), (2, 2) over the demo database, scored through the
  name scores (\<open>use_knn\<close> true) and through the distances (\<open>use_knn\<close> false). In
  both runs the pair (1, 2) gets a positive score, also stored for the pairs (1, 1) and
  (2, 2), which are emitted with \<open>0.0\<close>.
\<close>

theorem C4_self_match_score_witness:
  "wbia_plugin_tbd rt_demo ibs_demo [1, 1, 2] [1, 2, 2] \<lparr>config_path = None, use_knn = True\<rparr>
     world_demo
     = (Inr [Some (PyFloat 0), Some (NpFloat (3 / 8)), Some (PyFloat 0)], world_demo')
   \<and> wbia_plugin_tbd rt_demo ibs_demo [1, 1, 2] [1, 2, 2] \<lparr>config_path = None, use_knn = False\<rparr>
     world_demo
     = (Inr [Some (PyFloat 0), Some (NpFloat (3 / 4)), Some (PyFloat 0)], world_demo')
   \<and> [1, 1, 2 :: aid] ! 0 = [1, 2, 2] ! 0
   \<and> [1, 1, 2 :: aid] ! 2 = [1, 2, 2] ! 2
   \<and> [Some (PyFloat 0), Some (NpFloat (3 / 8)), Some (PyFloat 0)] ! 0 = Some (PyFloat 0)
   \<and> [Some (PyFloat 0), Some (NpFloat (3 / 8)), Some (PyFloat 0)] ! 2 = Some (PyFloat 0)
   \<and> [Some (PyFloat 0), Some (NpFloat (3 / 4)), Some (PyFloat 0)] ! 0 = Some (PyFloat 0)
   \<and> [Some (PyFloat 0), Some (NpFloat (3 / 4)), Some (PyFloat 0)] ! 2 = Some (PyFloat 0)"
proof -
  let ?knn = "[Some (PyFloat 0), Some (NpFloat (3 / 8)), Some (PyFloat 0)]"
  let ?dist = "[Some (PyFloat 0), Some (NpFloat (3 / 4)), Some (PyFloat 0)]"
  from C4_self_match_score[where rt = rt_demo and ibs = ibs_demo and qaid_list = "[1, 1, 2]"
      and daid_list = "[1, 2, 2]" and config = "\<lparr>config_path = None, use_knn = True\<rparr>"
      and w = world_demo and daid_scores = ?knn and w' = world_demo']
    demo_wbia_plugin_tbd
  have a: "\<forall>i<length ?knn. [1, 1, 2 :: aid] ! i = [1, 2, 2] ! i \<longrightarrow> ?knn ! i = Some (PyFloat 0)"
    by blast
  from C4_self_match_score[where rt = rt_demo and ibs = ibs_demo and qaid_list = "[1, 1, 2]"
      and daid_list = "[1, 2, 2]" and config = "\<lparr>config_path = None, use_knn = False\<rparr>"
      and w = world_demo and daid_scores = ?dist and w' = world_demo']
    demo_wbia_plugin_tbd_distance
  have b: "\<forall>i<length ?dist. [1, 1, 2 :: aid] ! i = [1, 2, 2] ! i \<longrightarrow> ?dist ! i = Some (PyFloat 0)"
    by blast
  have "?knn ! 0 = Some (PyFloat 0)" using a[rule_format, of 0] by simp
  moreover have "?knn ! 2 = Some (PyFloat 0)" using a[rule_format, of 2] by simp
  moreover have "?dist ! 0 = Some (PyFloat 0)" using b[rule_format, of 0] by simp
  moreover have "?dist ! 2 = Some (PyFloat 0)" using b[rule_format, of 2] by simp
  ultimately show ?thesis
    using demo_wbia_plugin_tbd demo_wbia_plugin_tbd_distance by simp
qed

end
